theory Spec2Isabelle
  imports Complex_Main
begin

section \<open>Python values, exceptions and the HTTP environment\<close>

text \<open>
  The program is \<^verbatim>\<open>fetch_data.py\<close>. Python floats are modelled as the real numbers
  they denote (no rounding error, no infinities, no NaN); a raise is a value \<open>Inl e\<close>
  of a sum type, a normal return is \<open>Inr v\<close>. The network is an input: every
  \<^verbatim>\<open>requests.get\<close> is given the reply it receives.
\<close>

datatype py_error =
  IndexError | KeyError | TypeError | ValueError | ZeroDivisionError
  | RequestException | HTTPError | JSONDecodeError

text \<open>What \<^verbatim>\<open>response.json()\<close> decodes to. An object is the list of its items.\<close>

datatype json =
  JNull | JBool bool | JInt int | JFloat real | JStr string
  | JArr "json list" | JObj "(string \<times> json) list"

text \<open>
  A reply to \<^verbatim>\<open>requests.get\<close>: the call raised (no connection, timeout), or it
  returned a status code and a body, which is \<open>None\<close> when the body is not JSON.
\<close>

datatype http_reply = Failed | Reply nat "json option"

definition ebind :: "'e + 'a \<Rightarrow> ('a \<Rightarrow> 'e + 'b) \<Rightarrow> 'e + 'b" where
  "ebind m f = (case m of Inl e \<Rightarrow> Inl e | Inr x \<Rightarrow> f x)"

text \<open>A list comprehension whose element expression may raise: the first raise wins.\<close>

fun emap :: "('a \<Rightarrow> 'e + 'b) \<Rightarrow> 'a list \<Rightarrow> 'e + 'b list" where
  "emap f [] = Inr []"
| "emap f (x # xs) = ebind (f x) (\<lambda>y. ebind (emap f xs) (\<lambda>ys. Inr (y # ys)))"

fun starts_with :: "'a list \<Rightarrow> 'a list \<Rightarrow> bool" where
  "starts_with [] ys = True"
| "starts_with (x # xs) [] = False"
| "starts_with (x # xs) (y # ys) = (x = y \<and> starts_with xs ys)"

fun contains_str :: "'a list \<Rightarrow> 'a list \<Rightarrow> bool" where
  "contains_str xs [] = (xs = [])"
| "contains_str xs (y # ys) = (starts_with xs (y # ys) \<or> contains_str xs ys)"

text \<open>
  \<^verbatim>\<open>k in v\<close> for a string \<open>k\<close>: a key of a dict, an element of a list, a substring
  of a string; a TypeError on None, booleans and numbers.
\<close>

definition py_in :: "string \<Rightarrow> json \<Rightarrow> py_error + bool" where
  "py_in k v =
     (case v of
        JObj kvs \<Rightarrow> Inr (k \<in> fst ` set kvs)
      | JArr xs \<Rightarrow> Inr (JStr k \<in> set xs)
      | JStr s \<Rightarrow> Inr (contains_str k s)
      | _ \<Rightarrow> Inl TypeError)"

text \<open>\<^verbatim>\<open>v[k]\<close> for a string \<open>k\<close>: only a dict can be indexed by a string.\<close>

definition py_getitem :: "json \<Rightarrow> string \<Rightarrow> py_error + json" where
  "py_getitem v k =
     (case v of
        JObj kvs \<Rightarrow> (case map_of kvs k of None \<Rightarrow> Inl KeyError | Some x \<Rightarrow> Inr x)
      | _ \<Rightarrow> Inl TypeError)"

text \<open>
  \<^verbatim>\<open>v[i]\<close> for a literal index \<open>i \<ge> 0\<close>: an element of a list, a character of a
  string, a KeyError on a dict (whose keys are strings), a TypeError otherwise.
\<close>

definition py_index :: "json \<Rightarrow> nat \<Rightarrow> py_error + json" where
  "py_index v i =
     (case v of
        JArr xs \<Rightarrow> (if i < length xs then Inr (xs ! i) else Inl IndexError)
      | JStr s \<Rightarrow> (if i < length s then Inr (JStr [s ! i]) else Inl IndexError)
      | JObj kvs \<Rightarrow> Inl KeyError
      | _ \<Rightarrow> Inl TypeError)"

text \<open>\<^verbatim>\<open>for x in v\<close>: the elements of a list, the characters of a string, the keys of a dict.\<close>

definition py_iter :: "json \<Rightarrow> py_error + json list" where
  "py_iter v =
     (case v of
        JArr xs \<Rightarrow> Inr xs
      | JStr s \<Rightarrow> Inr (map (\<lambda>c. JStr [c]) s)
      | JObj kvs \<Rightarrow> Inr (map (\<lambda>kv. JStr (fst kv)) kvs)
      | _ \<Rightarrow> Inl TypeError)"

text \<open>\<^verbatim>\<open>for x in v[:n]\<close>: a dict cannot be sliced.\<close>

definition py_slice_items :: "nat \<Rightarrow> json \<Rightarrow> py_error + json list" where
  "py_slice_items n v =
     (case v of
        JArr xs \<Rightarrow> Inr (take n xs)
      | JStr s \<Rightarrow> Inr (map (\<lambda>c. JStr [c]) (take n s))
      | _ \<Rightarrow> Inl TypeError)"

text \<open>
  \<^verbatim>\<open>float(v)\<close>. The reading of a string literal as a number is the parameter
  \<open>pf\<close> (\<open>None\<close>: Python raises ValueError).
\<close>

definition py_float :: "(string \<Rightarrow> real option) \<Rightarrow> json \<Rightarrow> py_error + real" where
  "py_float pf v =
     (case v of
        JInt i \<Rightarrow> Inr (of_int i)
      | JFloat r \<Rightarrow> Inr r
      | JBool b \<Rightarrow> Inr (if b then 1 else 0)
      | JStr s \<Rightarrow> (case pf s of None \<Rightarrow> Inl ValueError | Some r \<Rightarrow> Inr r)
      | _ \<Rightarrow> Inl TypeError)"

text \<open>\<^verbatim>\<open>response.raise_for_status()\<close> of the requests library raises on 4xx and 5xx.\<close>

definition raise_for_status :: "nat \<Rightarrow> py_error + unit" where
  "raise_for_status st = (if 400 \<le> st \<and> st < 600 then Inl HTTPError else Inr ())"

definition json_of :: "json option \<Rightarrow> py_error + json" where
  "json_of body = (case body of None \<Rightarrow> Inl JSONDecodeError | Some j \<Rightarrow> Inr j)"

definition py_last :: "'a list \<Rightarrow> py_error + 'a" where
  "py_last xs = (if xs = [] then Inl IndexError else Inr (last xs))"

definition py_div :: "real \<Rightarrow> real \<Rightarrow> py_error + real" where
  "py_div a b = (if b = 0 then Inl ZeroDivisionError else Inr (a / b))"

text \<open>\<^verbatim>\<open>xs[-n:]\<close>: the last \<open>n\<close> elements (all of them when \<open>n = 0\<close>, as \<open>-0 = 0\<close>).\<close>

definition py_tail :: "nat \<Rightarrow> 'a list \<Rightarrow> 'a list" where
  "py_tail n xs = (if n = 0 then xs else drop (length xs - n) xs)"

text \<open>\<^verbatim>\<open>round(x, n)\<close>: to the nearest multiple of \<open>10^-n\<close>, ties to the even one.\<close>

definition round_half_even :: "real \<Rightarrow> int" where
  "round_half_even x =
     (let f = \<lfloor>x\<rfloor>; d = x - of_int f
      in if d < 1 / 2 then f else if 1 / 2 < d then f + 1
         else if even f then f else f + 1)"

definition py_round :: "real \<Rightarrow> nat \<Rightarrow> real" where
  "py_round x n = of_int (round_half_even (x * 10 ^ n)) / 10 ^ n"

section \<open>Indicator engine\<close>

fun ema_loop :: "real \<Rightarrow> real \<Rightarrow> real list \<Rightarrow> real list" where
  "ema_loop multiplier prev [] = []"
| "ema_loop multiplier prev (price # rest) =
     (let e = price * multiplier + prev * (1 - multiplier)
      in e # ema_loop multiplier e rest)"

definition calculate_ema :: "real list \<Rightarrow> nat \<Rightarrow> py_error + real list" where
  "calculate_ema prices period =
     (case prices of
        [] \<Rightarrow> Inl IndexError
      | p # rest \<Rightarrow> Inr (p # ema_loop (2 / (real period + 1)) p rest))"

definition calculate_macd :: "real list \<Rightarrow> py_error + real" where
  "calculate_macd prices =
     ebind (calculate_ema prices 12) (\<lambda>e12.
     ebind (calculate_ema prices 26) (\<lambda>e26.
     Inr (last e12 - last e26)))"

definition calculate_rsi :: "real list \<Rightarrow> nat \<Rightarrow> py_error + real" where
  "calculate_rsi prices period =
     (if length prices < period + 1 then Inr 50
      else
        let deltas = map (\<lambda>i. prices ! i - prices ! (i - 1)) [1..<length prices];
            gains = map (\<lambda>d. if 0 < d then d else 0) (py_tail period deltas);
            losses = map (\<lambda>d. if d < 0 then - d else 0) (py_tail period deltas)
        in ebind (py_div (sum_list gains) (real period)) (\<lambda>avg_gain.
           ebind (if 0 < sum_list losses then py_div (sum_list losses) (real period) else Inr 1)
             (\<lambda>avg_loss.
           ebind (py_div avg_gain avg_loss) (\<lambda>rs.
           ebind (py_div 100 (1 + rs)) (\<lambda>q.
           Inr (100 - q))))))"

text \<open>The three-way branch of \<^verbatim>\<open>main\<close> on \<^verbatim>\<open>vol_pct\<close>.\<close>

definition vol_regime :: "real \<Rightarrow> string" where
  "vol_regime vol_pct =
     (if 5 / 1000 < vol_pct then ''high''
      else if vol_pct < 2 / 1000 then ''low''
      else ''normal'')"

text \<open>The loops of \<^verbatim>\<open>main\<close> that recompute MACD and RSI for every prefix.\<close>

definition macd_list :: "real list \<Rightarrow> py_error + real list" where
  "macd_list prices =
     emap (\<lambda>i. ebind (calculate_macd (take i prices)) (\<lambda>macd_val. Inr (py_round macd_val 3)))
       [10..<length prices + 1]"

definition rsi7_list :: "real list \<Rightarrow> py_error + real list" where
  "rsi7_list prices =
     emap (\<lambda>i. ebind (calculate_rsi (take i prices) 7) (\<lambda>rsi_val. Inr (py_round rsi_val 3)))
       [8..<length prices + 1]"

definition high_low :: "real list \<Rightarrow> real list" where
  "high_low prices =
     map (\<lambda>i. max (prices ! i) (prices ! (i - 1)) - min (prices ! i) (prices ! (i - 1)))
       [1..<length prices]"

definition atr14_of :: "real list \<Rightarrow> real" where
  "atr14_of prices =
     (if 14 \<le> length (high_low prices) then sum_list (py_tail 14 (high_low prices)) / 14 else 0)"

section \<open>Source adapters\<close>

record binance_bag =
  mid_prices :: "real list"
  volumes :: "real list"
  taker_buy_volumes :: "real list"
  order_book_imbalance :: real
  bid_vol_top5 :: real
  ask_vol_top5 :: real

record bybit_bag =
  oi_latest :: real
  funding_rate :: real

text \<open>\<^verbatim>\<open>[float(k[i]) for k in klines]\<close>\<close>

definition kline_column :: "(string \<Rightarrow> real option) \<Rightarrow> nat \<Rightarrow> json list \<Rightarrow> py_error + real list" where
  "kline_column pf i ks = emap (\<lambda>k. ebind (py_index k i) (py_float pf)) ks"

text \<open>\<^verbatim>\<open>sum(float(level[1]) for level in depth[side])\<close>\<close>

definition side_volume :: "(string \<Rightarrow> real option) \<Rightarrow> json \<Rightarrow> string \<Rightarrow> py_error + real" where
  "side_volume pf depth side =
     ebind (py_getitem depth side) (\<lambda>book.
     ebind (py_iter book) (\<lambda>levels.
     ebind (emap (\<lambda>level. ebind (py_index level 1) (py_float pf)) levels) (\<lambda>vs.
     Inr (sum_list vs))))"

definition imbalance_of :: "real \<Rightarrow> real \<Rightarrow> real" where
  "imbalance_of bid_vol ask_vol =
     (if 0 < bid_vol + ask_vol then (bid_vol - ask_vol) / (bid_vol + ask_vol) else 0)"

definition binance_fallback :: binance_bag where
  "binance_fallback =
     \<lparr> mid_prices = replicate 10 60000, volumes = replicate 10 1,
       taker_buy_volumes = replicate 10 (1 / 2), order_book_imbalance = 0,
       bid_vol_top5 = 10, ask_vol_top5 = 10 \<rparr>"

text \<open>
  The body of the \<^verbatim>\<open>try\<close> of \<^verbatim>\<open>get_binance_data\<close>, in its two halves: the
  candles, then the order book.
\<close>

definition fetch_klines ::
  "(string \<Rightarrow> real option) \<Rightarrow> http_reply \<Rightarrow> py_error + real list \<times> real list \<times> real list" where
  "fetch_klines pf klines_reply =
     (case klines_reply of
        Failed \<Rightarrow> Inl RequestException
      | Reply st body \<Rightarrow>
          ebind (raise_for_status st) (\<lambda>_.
          ebind (json_of body) (\<lambda>klines.
          case klines of
            JArr ks \<Rightarrow>
              if ks = [] then Inl ValueError
              else
                ebind (kline_column pf 4 ks) (\<lambda>closes.
                ebind (kline_column pf 5 ks) (\<lambda>vols.
                ebind (kline_column pf 9 ks) (\<lambda>takers.
                Inr (closes, vols, takers))))
          | _ \<Rightarrow> Inl ValueError)))"

definition fetch_depth ::
  "(string \<Rightarrow> real option) \<Rightarrow> http_reply \<Rightarrow> py_error + real \<times> real" where
  "fetch_depth pf depth_reply =
     (case depth_reply of
        Failed \<Rightarrow> Inl RequestException
      | Reply st body \<Rightarrow>
          ebind (raise_for_status st) (\<lambda>_.
          ebind (json_of body) (\<lambda>depth.
          ebind (py_in ''bids'' depth) (\<lambda>has_bids.
          ebind (if has_bids then py_in ''asks'' depth else Inr False) (\<lambda>both.
          if \<not> both then Inl ValueError
          else
            ebind (side_volume pf depth ''bids'') (\<lambda>bid_vol.
            ebind (side_volume pf depth ''asks'') (\<lambda>ask_vol.
            Inr (bid_vol, ask_vol))))))))"

definition fetch_binance ::
  "(string \<Rightarrow> real option) \<Rightarrow> http_reply \<Rightarrow> http_reply \<Rightarrow> py_error + binance_bag" where
  "fetch_binance pf klines_reply depth_reply =
     ebind (fetch_klines pf klines_reply) (\<lambda>(closes, vols, takers).
     ebind (fetch_depth pf depth_reply) (\<lambda>(bid_vol, ask_vol).
     Inr \<lparr> mid_prices = closes, volumes = vols, taker_buy_volumes = takers,
           order_book_imbalance = py_round (imbalance_of bid_vol ask_vol) 4,
           bid_vol_top5 = bid_vol, ask_vol_top5 = ask_vol \<rparr>))"

definition get_binance_data ::
  "(string \<Rightarrow> real option) \<Rightarrow> http_reply \<Rightarrow> http_reply \<Rightarrow> binance_bag" where
  "get_binance_data pf klines_reply depth_reply =
     (case fetch_binance pf klines_reply depth_reply of
        Inr bag \<Rightarrow> bag
      | Inl e \<Rightarrow> binance_fallback)"

text \<open>\<^verbatim>\<open>requests.get(url, timeout=10).json()\<close>, with no look at the status.\<close>

definition reply_json :: "http_reply \<Rightarrow> py_error + json" where
  "reply_json reply =
     (case reply of Failed \<Rightarrow> Inl RequestException | Reply st body \<Rightarrow> json_of body)"

text \<open>The body of the \<^verbatim>\<open>try\<close> of \<^verbatim>\<open>get_bybit_data\<close>: both requests, then the checks.\<close>

definition fetch_bybit ::
  "(string \<Rightarrow> real option) \<Rightarrow> http_reply \<Rightarrow> http_reply \<Rightarrow> py_error + bybit_bag" where
  "fetch_bybit pf oi_reply funding_reply =
     ebind (reply_json oi_reply) (\<lambda>oi.
     ebind (reply_json funding_reply) (\<lambda>funding.
     ebind (py_in ''result'' oi) (\<lambda>has_oi.
     ebind (if has_oi then py_in ''result'' funding else Inr False) (\<lambda>both.
     if \<not> both then Inl ValueError
     else
       ebind (py_getitem oi ''result'') (\<lambda>r1.
       ebind (py_getitem r1 ''open_interest'') (\<lambda>v1.
       ebind (py_float pf v1) (\<lambda>oi_val.
       ebind (py_getitem funding ''result'') (\<lambda>r2.
       ebind (py_getitem r2 ''funding_rate'') (\<lambda>v2.
       ebind (py_float pf v2) (\<lambda>rate.
       Inr \<lparr> oi_latest = oi_val, funding_rate = rate \<rparr>))))))))))"

definition get_bybit_data ::
  "(string \<Rightarrow> real option) \<Rightarrow> http_reply \<Rightarrow> http_reply \<Rightarrow> bybit_bag" where
  "get_bybit_data pf oi_reply funding_reply =
     (case fetch_bybit pf oi_reply funding_reply of
        Inr bag \<Rightarrow> bag
      | Inl e \<Rightarrow> \<lparr> oi_latest = 29000, funding_rate = 1 / 100000 \<rparr>)"

text \<open>
  One side of the liquidation reply:
  \<^verbatim>\<open>[item['price'] for item in data['data'][name][:2]]\<close> when \<^verbatim>\<open>'data' in data\<close>
  and \<^verbatim>\<open>name in data['data']\<close>, the empty list otherwise.
\<close>

definition liquidation_side :: "json \<Rightarrow> string \<Rightarrow> py_error + json list" where
  "liquidation_side data name =
     ebind (py_in ''data'' data) (\<lambda>has_data.
     if \<not> has_data then Inr []
     else
       ebind (py_getitem data ''data'') (\<lambda>inner.
       ebind (py_in name inner) (\<lambda>has_list.
       if \<not> has_list then Inr []
       else
         ebind (py_getitem inner name) (\<lambda>entries.
         ebind (py_slice_items 2 entries) (\<lambda>items.
         emap (\<lambda>item. py_getitem item ''price'') items)))))"

definition zero_pair :: "json list" where
  "zero_pair = [JInt 0, JInt 0]"

text \<open>The body of the \<^verbatim>\<open>try\<close> of \<^verbatim>\<open>get_coinglass_liquidations\<close>.\<close>

definition fetch_liquidations ::
  "string option \<Rightarrow> http_reply \<Rightarrow> py_error + json list \<times> json list" where
  "fetch_liquidations api_key reply =
     (if api_key = None \<or> api_key = Some [] then Inl ValueError
      else
        case reply of
          Failed \<Rightarrow> Inl RequestException
        | Reply st body \<Rightarrow>
            if st = 200 then
              ebind (json_of body) (\<lambda>data.
              ebind (liquidation_side data ''longLiquidationList'') (\<lambda>longs.
              ebind (liquidation_side data ''shortLiquidationList'') (\<lambda>shorts.
              Inr (if longs = [] then zero_pair else longs,
                   if shorts = [] then zero_pair else shorts))))
            else Inr (zero_pair, zero_pair))"

definition get_coinglass_liquidations ::
  "string option \<Rightarrow> http_reply \<Rightarrow> json list \<times> json list" where
  "get_coinglass_liquidations api_key reply =
     (case fetch_liquidations api_key reply of
        Inr r \<Rightarrow> r
      | Inl e \<Rightarrow> (zero_pair, zero_pair))"

section \<open>Report builder and sink\<close>

text \<open>
  A replacement field of the f-string of \<^verbatim>\<open>main\<close>: \<open>Fixed n x\<close> is
  \<^verbatim>\<open>{x:.nf}\<close>; \<open>Plain\<close>, \<open>PlainList\<close> and \<open>PlainJson\<close> are \<^verbatim>\<open>{x}\<close> with no
  format at all (Python's default text of a float, of a list of floats, of a list of
  decoded JSON items); \<open>Label\<close> is a string put in as it is.
\<close>

datatype cell =
  Fixed nat real | Plain real | PlainList "real list" | PlainJson "json list" | Label string

text \<open>The 4-hour block of \<^verbatim>\<open>main\<close>: its \<^verbatim>\<open>try\<close>, and the bare \<^verbatim>\<open>except\<close>.\<close>

definition fetch_4h :: "(string \<Rightarrow> real option) \<Rightarrow> http_reply \<Rightarrow> py_error + real \<times> real" where
  "fetch_4h pf reply =
     ebind (reply_json reply) (\<lambda>klines_4h.
     ebind (py_iter klines_4h) (\<lambda>ks.
     ebind (kline_column pf 4 ks) (\<lambda>closes_4h.
     ebind (calculate_ema closes_4h 20) (\<lambda>e20.
     ebind (py_last e20) (\<lambda>ema20_4h.
     ebind (calculate_ema closes_4h 50) (\<lambda>e50.
     ebind (py_last e50) (\<lambda>ema50_4h.
     Inr (ema20_4h, ema50_4h))))))))"

definition ema_4h :: "(string \<Rightarrow> real option) \<Rightarrow> http_reply \<Rightarrow> real \<times> real" where
  "ema_4h pf reply = (case fetch_4h pf reply of Inr r \<Rightarrow> r | Inl e \<Rightarrow> (60000, 59000))"

text \<open>
  \<^verbatim>\<open>main\<close> up to the finished \<^verbatim>\<open>output\<close> string, from the three adapters' results:
  the assignments in the order of the source, then the replacement fields of the
  f-string from left to right, each under a name of its own.
\<close>

definition build_report ::
  "(string \<Rightarrow> real option) \<Rightarrow> binance_bag \<Rightarrow> bybit_bag \<Rightarrow> json list \<times> json list
     \<Rightarrow> http_reply \<Rightarrow> string \<Rightarrow> py_error + (string \<times> cell) list" where
  "build_report pf binance bybit liq reply_4h timestamp =
     ebind (py_last (mid_prices binance)) (\<lambda>current_price.
     ebind (calculate_ema (mid_prices binance) 20) (\<lambda>ema_all.
     ebind (py_last (py_tail 10 ema_all)) (\<lambda>ema20.
     ebind (macd_list (mid_prices binance)) (\<lambda>macds.
     ebind (rsi7_list (mid_prices binance)) (\<lambda>rsis.
     let ema20_list = py_tail 10 ema_all;
         current_macd = (if macds \<noteq> [] then last macds else 0);
         current_rsi7 = (if rsis \<noteq> [] then last rsis else 50);
         ema20_4h = fst (ema_4h pf reply_4h);
         ema50_4h = snd (ema_4h pf reply_4h);
         atr14 = atr14_of (mid_prices binance)
     in
     ebind (py_div atr14 current_price) (\<lambda>vol_pct.
     ebind (py_last (volumes binance)) (\<lambda>current_volume.
     ebind (py_div (sum_list (volumes binance)) (real (length (volumes binance)))) (\<lambda>average_volume.
     ebind (py_last (taker_buy_volumes binance)) (\<lambda>taker.
     ebind (py_last (volumes binance)) (\<lambda>latest_volume.
     ebind (py_div taker latest_volume) (\<lambda>share.
     Inr [(''timestamp'', Label timestamp),
          (''current_price'', Plain current_price),
          (''current_ema20'', Fixed 3 ema20),
          (''current_macd'', Fixed 3 current_macd),
          (''current_rsi7'', Fixed 3 current_rsi7),
          (''oi_latest'', Fixed 2 (oi_latest bybit)),
          (''oi_average'', Fixed 2 (oi_latest bybit * (999 / 1000))),
          (''funding_rate'', Fixed 8 (funding_rate bybit)),
          (''mid_prices'', PlainList (mid_prices binance)),
          (''ema20_list'', PlainList (map (\<lambda>x. py_round x 3) ema20_list)),
          (''macd_list'', PlainList macds),
          (''rsi7_list'', PlainList rsis),
          (''rsi14_list'', PlainList (replicate 10 60)),
          (''ema20_4h'', Fixed 3 ema20_4h),
          (''ema50_4h'', Fixed 3 ema50_4h),
          (''atr3_4h'', Fixed 3 atr14),
          (''atr14_4h'', Fixed 3 atr14),
          (''current_volume'', Fixed 3 current_volume),
          (''average_volume'', Fixed 3 average_volume),
          (''macd_list_4h'', PlainList (replicate 10 100)),
          (''rsi14_list_4h'', PlainList (replicate 10 60)),
          (''bid_vol'', Fixed 1 (bid_vol_top5 binance)),
          (''ask_vol'', Fixed 1 (ask_vol_top5 binance)),
          (''imbalance'', Fixed 3 (order_book_imbalance binance)),
          (''taker_buy_volume'', Fixed 1 taker),
          (''taker_buy_share'', Fixed 1 (share * 100)),
          (''long_liq'', PlainJson (fst liq)),
          (''short_liq'', PlainJson (snd liq)),
          (''vol_regime'', Label (vol_regime vol_pct)),
          (''atr_1h'', Fixed 1 atr14)])))))))))))"

text \<open>
  What a run is given: the credential of the environment, the reply to each request
  and the clock's text.
\<close>

record environment =
  api_key :: "string option"
  klines_reply :: http_reply
  depth_reply :: http_reply
  oi_reply :: http_reply
  funding_reply :: http_reply
  liquidation_reply :: http_reply
  klines_4h_reply :: http_reply
  timestamp :: string

definition report_of :: "(string \<Rightarrow> real option) \<Rightarrow> environment \<Rightarrow> py_error + (string \<times> cell) list" where
  "report_of pf env =
     build_report pf
       (get_binance_data pf (klines_reply env) (depth_reply env))
       (get_bybit_data pf (oi_reply env) (funding_reply env))
       (get_coinglass_liquidations (api_key env) (liquidation_reply env))
       (klines_4h_reply env) (timestamp env)"

text \<open>
  \<^verbatim>\<open>main\<close>, with the file \<^verbatim>\<open>public/btc-data.txt\<close> as state (\<open>None\<close>: no file): the
  file is written after the report is built, so a raise leaves it as it was.
\<close>

definition main ::
  "(string \<Rightarrow> real option) \<Rightarrow> environment \<Rightarrow> (string \<times> cell) list option
     \<Rightarrow> (py_error + unit) \<times> (string \<times> cell) list option" where
  "main pf env file =
     (case report_of pf env of
        Inl e \<Rightarrow> (Inl e, file)
      | Inr output \<Rightarrow> (Inr (), Some output))"

text \<open>
  The text of \<^verbatim>\<open>{x:.nf}\<close>: the sign, the digits before the point, and \<open>n\<close> digits
  after it, the last one rounded.
\<close>

fun digits_of :: "nat \<Rightarrow> string" where
  "digits_of k =
     (if k < 10 then [''0123456789'' ! k]
      else digits_of (k div 10) @ [''0123456789'' ! (k mod 10)])"

declare digits_of.simps [simp del]

definition pad_digits :: "nat \<Rightarrow> nat \<Rightarrow> string" where
  "pad_digits n k = replicate (n - length (digits_of k)) (CHR ''0'') @ digits_of k"

definition render_fixed :: "nat \<Rightarrow> real \<Rightarrow> string" where
  "render_fixed n x =
     (let q = nat (round_half_even (\<bar>x\<bar> * 10 ^ n))
      in (if x < 0 then ''-'' else [])
         @ digits_of (q div 10 ^ n)
         @ (if n = 0 then [] else ''.'' @ pad_digits n (q mod 10 ^ n)))"

text \<open>The number of characters after the decimal point of a rendered number.\<close>

definition decimals :: "string \<Rightarrow> nat" where
  "decimals s = length (drop 1 (dropWhile (\<lambda>c. c \<noteq> CHR ''.'') s))"

text \<open>The fixed precision of a field, when it has one.\<close>

fun precision :: "cell \<Rightarrow> nat option" where
  "precision (Fixed n x) = Some n"
| "precision c = None"

text \<open>Sample replies of the exchange: one candle, and a book with one level a side.\<close>

definition sample_klines :: json where
  "sample_klines =
     JArr [JArr [JInt 0, JNull, JNull, JNull, JFloat 100, JFloat 2, JInt 0, JNull, JInt 0, JFloat 1]]"

definition sample_depth :: json where
  "sample_depth =
     JObj [(''bids'', JArr [JArr [JFloat 99, JFloat 1]]),
           (''asks'', JArr [JArr [JFloat 101, JFloat 1]])]"

text \<open>A sample liquidation reply: one long level, no short list.\<close>

definition sample_liquidations :: json where
  "sample_liquidations =
     JObj [(''data'', JObj [(''longLiquidationList'', JArr [JObj [(''price'', JFloat 59000)]])])]"

text \<open>
  More sample inputs. A candle \<open>candle c v t\<close> has close \<open>c\<close>, volume \<open>v\<close> and taker-buy
  volume \<open>t\<close>; \<open>quiet_klines\<close> is one candle in which nothing traded, and
  \<open>scenario_klines\<close> is ten candles closing at 100 to 109 with volume 1.0 and
  taker-buy volume 0.5.
\<close>

definition candle :: "real \<Rightarrow> real \<Rightarrow> real \<Rightarrow> json" where
  "candle c v t =
     JArr [JInt 0, JNull, JNull, JNull, JFloat c, JFloat v, JInt 0, JNull, JInt 0, JFloat t]"

definition quiet_klines :: json where
  "quiet_klines = JArr [candle 100 0 0]"

definition scenario_klines :: json where
  "scenario_klines =
     JArr (map (\<lambda>c. candle c 1 (1 / 2)) [100, 101, 102, 103, 104, 105, 106, 107, 108, 109])"

text \<open>
  A book with twice the volume on the bid side, and a book with no level at all.
\<close>

definition skewed_depth :: json where
  "skewed_depth =
     JObj [(''bids'', JArr [JArr [JFloat 99, JFloat 2]]),
           (''asks'', JArr [JArr [JFloat 101, JFloat 1]])]"

definition empty_depth :: json where
  "empty_depth = JObj [(''bids'', JArr []), (''asks'', JArr [])]"

text \<open>
  Sample runs: every request failing and no credential; then the exchange answering
  with the quiet candle, with the skewed book, with the ten-candle series, and with
  an empty list of candles.
\<close>

definition offline_env :: environment where
  "offline_env =
     \<lparr> api_key = None, klines_reply = Failed, depth_reply = Failed, oi_reply = Failed,
       funding_reply = Failed, liquidation_reply = Failed, klines_4h_reply = Failed,
       timestamp = ''2024-01-01 00:00:00 UTC'' \<rparr>"

definition quiet_env :: environment where
  "quiet_env =
     offline_env \<lparr> klines_reply := Reply 200 (Some quiet_klines),
                   depth_reply := Reply 200 (Some sample_depth) \<rparr>"

definition skewed_env :: environment where
  "skewed_env =
     offline_env \<lparr> klines_reply := Reply 200 (Some sample_klines),
                   depth_reply := Reply 200 (Some skewed_depth) \<rparr>"

definition scenario_env :: environment where
  "scenario_env =
     offline_env \<lparr> klines_reply := Reply 200 (Some scenario_klines),
                   depth_reply := Reply 200 (Some sample_depth) \<rparr>"

definition empty_klines_env :: environment where
  "empty_klines_env =
     offline_env \<lparr> klines_reply := Reply 200 (Some (JArr [])),
                   depth_reply := Reply 200 (Some sample_depth) \<rparr>"

text \<open>
  A field of the report of a run, by its name (\<open>None\<close> when the run raised).
\<close>

definition report_field :: "string \<Rightarrow> py_error + (string \<times> cell) list \<Rightarrow> cell option" where
  "report_field label run = (case run of Inl e \<Rightarrow> None | Inr output \<Rightarrow> map_of output label)"

section \<open>Basic facts\<close>

lemma ebind_Inl [simp]: "ebind (Inl e) f = Inl e"
  by (simp add: ebind_def)

lemma ebind_Inr [simp]: "ebind (Inr x) f = f x"
  by (simp add: ebind_def)

lemma ebind_eq_Inr: "(ebind m f = Inr y) = (\<exists>x. m = Inr x \<and> f x = Inr y)"
  by (cases m) simp_all

lemma emap_Inr_length: "emap f xs = Inr ys \<Longrightarrow> length ys = length xs"
proof (induction xs arbitrary: ys)
  case Nil
  then show ?case by simp
next
  case (Cons x xs)
  then show ?case by (auto simp: ebind_eq_Inr)
qed

lemma emap_total:
  "(\<And>x. x \<in> set xs \<Longrightarrow> \<exists>y. f x = Inr y) \<Longrightarrow> \<exists>ys. emap f xs = Inr ys"
proof (induction xs)
  case Nil
  then show ?case by simp
next
  case (Cons x xs)
  from Cons.prems obtain y where y: "f x = Inr y" by fastforce
  from Cons obtain ys where ys: "emap f xs = Inr ys" by fastforce
  show ?case by (simp add: y ys)
qed

lemma sum_list_gains_nonneg: "0 \<le> sum_list (map (\<lambda>d::real. if 0 < d then d else 0) ds)"
  by (rule sum_list_nonneg) auto

lemma sum_list_losses_nonneg: "0 \<le> sum_list (map (\<lambda>d::real. if d < 0 then - d else 0) ds)"
  by (rule sum_list_nonneg) auto

lemma rsi_formula_bounds:
  fixes rs :: real
  assumes "0 \<le> rs"
  shows "0 \<le> 100 - 100 / (1 + rs) \<and> 100 - 100 / (1 + rs) \<le> 100"
proof -
  have "100 / (1 + rs) \<le> 100 / 1"
    using assms by (intro divide_left_mono) simp_all
  moreover have "0 \<le> 100 / (1 + rs)" using assms by simp
  ultimately show ?thesis by simp
qed

lemma rsi_core:
  fixes g l :: real
  assumes g: "0 \<le> g" and l: "0 \<le> l"
  shows "\<exists>r. ebind (py_div g 7) (\<lambda>avg_gain.
           ebind (if 0 < l then py_div l 7 else Inr 1) (\<lambda>avg_loss.
           ebind (py_div avg_gain avg_loss) (\<lambda>rs.
           ebind (py_div 100 (1 + rs)) (\<lambda>q. Inr (100 - q))))) = Inr r \<and> 0 \<le> r \<and> r \<le> 100"
proof -
  define al where "al = (if 0 < l then l / 7 else 1)"
  have al: "0 < al" using l by (simp add: al_def)
  have s2: "(if 0 < l then py_div l 7 else Inr 1) = Inr al"
    by (simp add: al_def py_div_def)
  define rs where "rs = (g / 7) / al"
  have rs: "0 \<le> rs" using g al by (simp add: rs_def)
  have s3: "py_div (g / 7) al = Inr rs" using al by (simp add: py_div_def rs_def)
  have ne: "1 + rs \<noteq> 0" using rs by simp
  have s4: "py_div 100 (1 + rs) = Inr (100 / (1 + rs))" using ne by (simp add: py_div_def)
  have s1: "py_div g 7 = Inr (g / 7)" by (simp add: py_div_def)
  show ?thesis
    using rsi_formula_bounds [OF rs] by (simp add: s1 s2 s3 s4)
qed

lemma calculate_rsi_short: "length prices < 8 \<Longrightarrow> calculate_rsi prices 7 = Inr 50"
  by (simp add: calculate_rsi_def)

lemma calculate_rsi_range: "\<exists>r. calculate_rsi prices 7 = Inr r \<and> 0 \<le> r \<and> r \<le> 100"
proof (cases "length prices < 8")
  case True
  then show ?thesis by (simp add: calculate_rsi_short)
next
  case False
  define ds where "ds = py_tail 7 (map (\<lambda>i. prices ! i - prices ! (i - 1)) [1..<length prices])"
  define g where "g = sum_list (map (\<lambda>d::real. if 0 < d then d else 0) ds)"
  define l where "l = sum_list (map (\<lambda>d::real. if d < 0 then - d else 0) ds)"
  have g: "0 \<le> g" unfolding g_def by (rule sum_list_gains_nonneg)
  have l: "0 \<le> l" unfolding l_def by (rule sum_list_losses_nonneg)
  have eq: "calculate_rsi prices 7 =
      ebind (py_div g 7) (\<lambda>avg_gain.
      ebind (if 0 < l then py_div l 7 else Inr 1) (\<lambda>avg_loss.
      ebind (py_div avg_gain avg_loss) (\<lambda>rs.
      ebind (py_div 100 (1 + rs)) (\<lambda>q. Inr (100 - q)))))"
    using False unfolding calculate_rsi_def Let_def g_def l_def ds_def
    by (simp split del: if_split cong: if_cong)
  show ?thesis unfolding eq by (rule rsi_core [OF g l])
qed

lemma calculate_ema_nonempty:
  "prices \<noteq> [] \<Longrightarrow> \<exists>e. calculate_ema prices period = Inr e \<and> length e = length prices"
proof -
  have len: "length (ema_loop k p xs) = length xs" for k p xs
    by (induction xs arbitrary: p) (simp_all add: Let_def)
  assume "prices \<noteq> []"
  then show ?thesis
    by (cases prices) (simp_all add: calculate_ema_def len)
qed

lemma calculate_macd_nonempty: "prices \<noteq> [] \<Longrightarrow> \<exists>m. calculate_macd prices = Inr m"
proof -
  assume ne: "prices \<noteq> []"
  from calculate_ema_nonempty [OF ne, of 12] obtain e12 where a: "calculate_ema prices 12 = Inr e12" by blast
  from calculate_ema_nonempty [OF ne, of 26] obtain e26 where b: "calculate_ema prices 26 = Inr e26" by blast
  show ?thesis by (simp add: calculate_macd_def a b)
qed

lemma macd_list_length:
  "\<exists>ms. macd_list prices = Inr ms \<and> length ms = length prices + 1 - 10"
proof -
  let ?f = "\<lambda>i. ebind (calculate_macd (take i prices)) (\<lambda>macd_val. Inr (py_round macd_val 3))"
  have "\<exists>y. ?f i = Inr y" if "i \<in> set [10..<length prices + 1]" for i
  proof -
    from that have "take i prices \<noteq> []" by auto
    from calculate_macd_nonempty [OF this] obtain m where "calculate_macd (take i prices) = Inr m" by blast
    then show ?thesis by simp
  qed
  from emap_total [of "[10..<length prices + 1]" ?f, OF this]
  obtain ms where ms: "emap ?f [10..<length prices + 1] = Inr ms" by blast
  have "length ms = length [10..<length prices + 1]" by (rule emap_Inr_length [OF ms])
  then have "length ms = length prices + 1 - 10" by (simp only: length_upt)
  with ms show ?thesis unfolding macd_list_def by blast
qed

lemma rsi7_list_length:
  "\<exists>rs. rsi7_list prices = Inr rs \<and> length rs = length prices + 1 - 8"
proof -
  let ?f = "\<lambda>i. ebind (calculate_rsi (take i prices) 7) (\<lambda>rsi_val. Inr (py_round rsi_val 3))"
  have "\<exists>y. ?f i = Inr y" for i
  proof -
    from calculate_rsi_range [of "take i prices"] obtain r where "calculate_rsi (take i prices) 7 = Inr r" by blast
    then show ?thesis by simp
  qed
  from emap_total [of "[8..<length prices + 1]" ?f, OF this]
  obtain rs where rs: "emap ?f [8..<length prices + 1] = Inr rs" by blast
  have "length rs = length [8..<length prices + 1]" by (rule emap_Inr_length [OF rs])
  then have "length rs = length prices + 1 - 8" by (simp only: length_upt)
  with rs show ?thesis unfolding rsi7_list_def by blast
qed

lemma round_half_even_le: "x \<le> of_int b \<Longrightarrow> round_half_even x \<le> b"
  unfolding round_half_even_def Let_def
  by (auto simp: floor_le_iff le_floor_iff)

lemma round_half_even_ge: "of_int a \<le> x \<Longrightarrow> a \<le> round_half_even x"
  unfolding round_half_even_def Let_def
  by (auto simp: le_floor_iff) linarith+

lemma py_round_zero: "py_round 0 n = 0"
  by (simp add: py_round_def round_half_even_def)

lemma py_round_bounds:
  assumes "- 1 \<le> x" "x \<le> 1"
  shows "- 1 \<le> py_round x n \<and> py_round x n \<le> 1"
proof -
  have p: "(0::real) < 10 ^ n" by simp
  have "x * 10 ^ n \<le> of_int (10 ^ n)" using assms p by simp
  then have u: "round_half_even (x * 10 ^ n) \<le> 10 ^ n" by (rule round_half_even_le)
  have "- 1 * 10 ^ n \<le> x * 10 ^ n" using assms(1) p by (intro mult_right_mono) simp_all
  then have "of_int (- (10 ^ n)) \<le> x * 10 ^ n" by simp
  then have l: "- (10 ^ n) \<le> round_half_even (x * 10 ^ n)" by (rule round_half_even_ge)
  from u have "real_of_int (round_half_even (x * 10 ^ n)) \<le> 10 ^ n"
    by (metis of_int_le_iff of_int_numeral of_int_power)
  moreover from l have "- (10 ^ n) \<le> real_of_int (round_half_even (x * 10 ^ n))"
    by (metis of_int_le_iff of_int_minus of_int_numeral of_int_power)
  ultimately show ?thesis using p by (simp add: py_round_def divide_le_eq le_divide_eq)
qed

lemma imbalance_of_range:
  assumes "0 \<le> b" "0 \<le> a"
  shows "- 1 \<le> imbalance_of b a \<and> imbalance_of b a \<le> 1"
  using assms by (auto simp: imbalance_of_def divide_le_eq le_divide_eq)

lemma fetch_binance_imbalance:
  "fetch_binance pf kr dr = Inr bag \<Longrightarrow>
     order_book_imbalance bag = py_round (imbalance_of (bid_vol_top5 bag) (ask_vol_top5 bag)) 4"
  by (auto simp: fetch_binance_def ebind_eq_Inr)

lemma get_binance_data_imbalance:
  "order_book_imbalance (get_binance_data pf kr dr) =
     py_round (imbalance_of (bid_vol_top5 (get_binance_data pf kr dr))
                            (ask_vol_top5 (get_binance_data pf kr dr))) 4"
proof (cases "fetch_binance pf kr dr")
  case (Inl e)
  then show ?thesis
    by (simp add: get_binance_data_def binance_fallback_def imbalance_of_def py_round_zero)
next
  case (Inr bag)
  from fetch_binance_imbalance [OF Inr] Inr show ?thesis by (simp add: get_binance_data_def)
qed

lemma sample_fetch:
  "fetch_binance (\<lambda>s. None) (Reply st (Some sample_klines)) (Reply 200 (Some sample_depth)) =
     (if 400 \<le> st \<and> st < 600 then Inl HTTPError
      else Inr \<lparr> mid_prices = [100], volumes = [2], taker_buy_volumes = [1],
             order_book_imbalance = 0, bid_vol_top5 = 1, ask_vol_top5 = 1 \<rparr>)"
  by (simp add: fetch_binance_def fetch_klines_def fetch_depth_def raise_for_status_def
      json_of_def sample_klines_def sample_depth_def kline_column_def py_index_def py_float_def
      py_in_def side_volume_def py_getitem_def py_iter_def imbalance_of_def py_round_zero)

lemma depth_failed_fallback: "get_binance_data pf kr Failed = binance_fallback"
  by (cases "fetch_klines pf kr")
    (auto simp: get_binance_data_def fetch_binance_def fetch_depth_def)

lemma klines_failed_fallback:
  "fetch_klines pf kr = Inl e \<Longrightarrow> get_binance_data pf kr dr = binance_fallback"
  by (simp add: get_binance_data_def fetch_binance_def)

lemma depth_error_fallback:
  "fetch_depth pf dr = Inl e \<Longrightarrow> get_binance_data pf kr dr = binance_fallback"
  by (cases "fetch_klines pf kr")
    (auto simp: get_binance_data_def fetch_binance_def)

lemma fetch_klines_fails:
  assumes "kr = Failed
     \<or> (\<exists>st b. kr = Reply st b \<and> 400 \<le> st \<and> st < 600)
     \<or> (\<exists>st. kr = Reply st None)
     \<or> (\<exists>st j. kr = Reply st (Some j) \<and> (\<forall>ks. j = JArr ks \<longrightarrow> ks = []))"
  shows "\<exists>e. fetch_klines pf kr = Inl e"
proof (cases kr)
  case Failed
  then show ?thesis by (simp add: fetch_klines_def)
next
  case (Reply st b)
  show ?thesis
  proof (cases "400 \<le> st \<and> st < 600")
    case True
    then show ?thesis by (simp add: Reply fetch_klines_def raise_for_status_def)
  next
    case ok: False
    show ?thesis
    proof (cases b)
      case None
      then show ?thesis using ok by (simp add: Reply fetch_klines_def raise_for_status_def json_of_def)
    next
      case (Some j)
      with assms Reply ok have "\<forall>ks. j = JArr ks \<longrightarrow> ks = []" by auto
      then show ?thesis using ok
        by (cases j) (simp_all add: Reply Some fetch_klines_def raise_for_status_def json_of_def)
    qed
  qed
qed

lemma fetch_depth_fails:
  assumes "dr = Failed
     \<or> (\<exists>st b. dr = Reply st b \<and> 400 \<le> st \<and> st < 600)
     \<or> (\<exists>st. dr = Reply st None)
     \<or> (\<exists>st d. dr = Reply st (Some d)
           \<and> (\<forall>kvs. d = JObj kvs \<longrightarrow> ''bids'' \<notin> fst ` set kvs \<or> ''asks'' \<notin> fst ` set kvs))"
  shows "\<exists>e. fetch_depth pf dr = Inl e"
proof (cases dr)
  case Failed
  then show ?thesis by (simp add: fetch_depth_def)
next
  case (Reply st b)
  show ?thesis
  proof (cases "400 \<le> st \<and> st < 600")
    case True
    then show ?thesis by (simp add: Reply fetch_depth_def raise_for_status_def)
  next
    case ok: False
    show ?thesis
    proof (cases b)
      case None
      then show ?thesis using ok by (simp add: Reply fetch_depth_def raise_for_status_def json_of_def)
    next
      case (Some d)
      with assms Reply ok
      have miss: "\<forall>kvs. d = JObj kvs \<longrightarrow> ''bids'' \<notin> fst ` set kvs \<or> ''asks'' \<notin> fst ` set kvs"
        by auto
      have sv: "\<exists>e. side_volume pf d side = Inl e" if "\<forall>kvs. d \<noteq> JObj kvs" for side
        using that by (cases d) (simp_all add: side_volume_def py_getitem_def)
      show ?thesis
      proof (cases d)
        case (JObj kvs)
        with miss show ?thesis using ok
          by (auto simp: Reply Some fetch_depth_def raise_for_status_def json_of_def py_in_def)
      next
        case JNull
        then show ?thesis using ok
          by (simp add: Reply Some fetch_depth_def raise_for_status_def json_of_def py_in_def)
      next
        case (JBool x)
        then show ?thesis using ok
          by (simp add: Reply Some fetch_depth_def raise_for_status_def json_of_def py_in_def)
      next
        case (JInt x)
        then show ?thesis using ok
          by (simp add: Reply Some fetch_depth_def raise_for_status_def json_of_def py_in_def)
      next
        case (JFloat x)
        then show ?thesis using ok
          by (simp add: Reply Some fetch_depth_def raise_for_status_def json_of_def py_in_def)
      next
        case (JStr x)
        then show ?thesis using ok
          by (simp add: Reply Some fetch_depth_def raise_for_status_def json_of_def py_in_def
              side_volume_def py_getitem_def)
      next
        case (JArr x)
        then show ?thesis using ok
          by (simp add: Reply Some fetch_depth_def raise_for_status_def json_of_def py_in_def
              side_volume_def py_getitem_def)
      qed
    qed
  qed
qed

lemma get_binance_data_cases:
  "get_binance_data pf kr dr = binance_fallback
   \<or> (\<exists>closes vols takers bid_vol ask_vol.
         fetch_klines pf kr = Inr (closes, vols, takers)
       \<and> fetch_depth pf dr = Inr (bid_vol, ask_vol)
       \<and> get_binance_data pf kr dr =
           \<lparr> mid_prices = closes, volumes = vols, taker_buy_volumes = takers,
             order_book_imbalance = py_round (imbalance_of bid_vol ask_vol) 4,
             bid_vol_top5 = bid_vol, ask_vol_top5 = ask_vol \<rparr>)"
proof (cases "fetch_klines pf kr")
  case (Inl e)
  then show ?thesis by (simp add: klines_failed_fallback)
next
  case k: (Inr t)
  show ?thesis
  proof (cases "fetch_depth pf dr")
    case (Inl e)
    then show ?thesis by (simp add: depth_error_fallback)
  next
    case d: (Inr u)
    obtain closes vols takers where t: "t = (closes, vols, takers)" by (cases t) auto
    obtain b a where u: "u = (b, a)" by (cases u) auto
    show ?thesis by (simp add: get_binance_data_def fetch_binance_def k d t u)
  qed
qed

lemma py_slice_items_length: "py_slice_items n v = Inr items \<Longrightarrow> length items \<le> n"
  by (cases v) (auto simp: py_slice_items_def)

lemma liquidation_side_length: "liquidation_side data name = Inr xs \<Longrightarrow> length xs \<le> 2"
  unfolding liquidation_side_def
  by (auto simp: ebind_eq_Inr split: if_splits dest!: emap_Inr_length py_slice_items_length)

lemma zero_pair_length: "length zero_pair = 2"
  by (simp add: zero_pair_def)

lemma fetch_liquidations_lengths:
  assumes "fetch_liquidations key reply = Inr (longs, shorts)"
  shows "1 \<le> length longs \<and> length longs \<le> 2 \<and> 1 \<le> length shorts \<and> length shorts \<le> 2"
proof -
  have one: "1 \<le> length (if xs = [] then zero_pair else xs)
      \<and> length (if xs = [] then zero_pair else xs) \<le> 2"
    if "length xs \<le> 2" for xs :: "json list"
    using that by (cases xs) (simp_all add: zero_pair_length)
  from assms consider
    (fallback) "longs = zero_pair" "shorts = zero_pair"
  | (sides) data l s where "liquidation_side data ''longLiquidationList'' = Inr l"
      "liquidation_side data ''shortLiquidationList'' = Inr s"
      "longs = (if l = [] then zero_pair else l)" "shorts = (if s = [] then zero_pair else s)"
    unfolding fetch_liquidations_def
    by (auto simp: ebind_eq_Inr split: if_splits http_reply.splits)
  then show ?thesis
  proof cases
    case fallback
    then show ?thesis by (simp add: zero_pair_length)
  next
    case sides
    from one [OF liquidation_side_length [OF sides(1)]] one [OF liquidation_side_length [OF sides(2)]]
    show ?thesis unfolding sides(3,4) by blast
  qed
qed

lemma coinglass_lengths:
  "1 \<le> length (fst (get_coinglass_liquidations key reply))
   \<and> length (fst (get_coinglass_liquidations key reply)) \<le> 2
   \<and> 1 \<le> length (snd (get_coinglass_liquidations key reply))
   \<and> length (snd (get_coinglass_liquidations key reply)) \<le> 2"
proof (cases "fetch_liquidations key reply")
  case (Inl e)
  then show ?thesis by (simp add: get_coinglass_liquidations_def zero_pair_length)
next
  case (Inr r)
  obtain longs shorts where r: "r = (longs, shorts)" by (cases r) auto
  from fetch_liquidations_lengths [OF Inr [unfolded r]] show ?thesis
    by (simp add: get_coinglass_liquidations_def Inr r)
qed

lemma coinglass_fallback:
  assumes "key = None \<or> key = Some [] \<or> reply = Failed
     \<or> (\<exists>st b. reply = Reply st b \<and> st \<noteq> 200)
     \<or> (\<exists>e. fetch_liquidations key reply = Inl e)"
  shows "get_coinglass_liquidations key reply = (zero_pair, zero_pair)"
  using assms
  by (auto simp: get_coinglass_liquidations_def fetch_liquidations_def
      split: sum.splits http_reply.splits)

lemma liquidation_side_empty:
  assumes "map_of kvs ''data'' = Some (JObj inner)"
    and "map_of inner name = None \<or> map_of inner name = Some (JArr [])"
  shows "liquidation_side (JObj kvs) name = Inr []"
proof -
  from assms(1) have "(''data'', JObj inner) \<in> set kvs" by (rule map_of_SomeD)
  then have has: "''data'' \<in> fst ` set kvs" by force
  from assms(2) show ?thesis
  proof
    assume n: "map_of inner name = None"
    then have "name \<notin> fst ` set inner" by (simp add: map_of_eq_None_iff)
    then show ?thesis
      by (simp add: liquidation_side_def py_in_def py_getitem_def has assms(1))
  next
    assume s: "map_of inner name = Some (JArr [])"
    then have "(name, JArr []) \<in> set inner" by (rule map_of_SomeD)
    then have "name \<in> fst ` set inner" by force
    then show ?thesis
      by (simp add: liquidation_side_def py_in_def py_getitem_def has assms(1) s
          py_slice_items_def)
  qed
qed

lemma coinglass_side_fallback:
  assumes "reply = Reply 200 (Some (JObj kvs))"
    and "map_of kvs ''data'' = Some (JObj inner)"
  shows "(map_of inner ''longLiquidationList'' = None
          \<or> map_of inner ''longLiquidationList'' = Some (JArr [])
          \<longrightarrow> fst (get_coinglass_liquidations key reply) = zero_pair)
       \<and> (map_of inner ''shortLiquidationList'' = None
          \<or> map_of inner ''shortLiquidationList'' = Some (JArr [])
          \<longrightarrow> snd (get_coinglass_liquidations key reply) = zero_pair)"
proof (intro conjI impI)
  assume "map_of inner ''longLiquidationList'' = None
          \<or> map_of inner ''longLiquidationList'' = Some (JArr [])"
  from liquidation_side_empty [OF assms(2) this]
  show "fst (get_coinglass_liquidations key reply) = zero_pair"
    by (cases "liquidation_side (JObj kvs) ''shortLiquidationList''")
      (simp_all add: get_coinglass_liquidations_def fetch_liquidations_def assms(1) json_of_def)
next
  assume "map_of inner ''shortLiquidationList'' = None
          \<or> map_of inner ''shortLiquidationList'' = Some (JArr [])"
  from liquidation_side_empty [OF assms(2) this]
  show "snd (get_coinglass_liquidations key reply) = zero_pair"
    by (cases "liquidation_side (JObj kvs) ''longLiquidationList''")
      (simp_all add: get_coinglass_liquidations_def fetch_liquidations_def assms(1) json_of_def)
qed

section \<open>Facts about the report builder\<close>

lemma py_tail_nonempty: "xs \<noteq> [] \<Longrightarrow> py_tail n xs \<noteq> []"
  by (cases xs) (auto simp: py_tail_def)

lemma calculate_ema_tail:
  assumes "calculate_ema prices period = Inr ema_all"
  shows "py_tail n ema_all \<noteq> []"
proof -
  from assms have "ema_all \<noteq> []" by (auto simp: calculate_ema_def split: list.splits)
  then show ?thesis by (rule py_tail_nonempty)
qed

lemma build_report_eq:
  assumes "mid_prices b \<noteq> []" "last (mid_prices b) \<noteq> 0" "volumes b \<noteq> []"
    "last (volumes b) \<noteq> 0" "taker_buy_volumes b \<noteq> []"
    and "calculate_ema (mid_prices b) 20 = Inr ema_all"
    and "macd_list (mid_prices b) = Inr macds" and "rsi7_list (mid_prices b) = Inr rsis"
  shows "build_report pf b y liq r4 ts = Inr
         [(''timestamp'', Label ts),
          (''current_price'', Plain (last (mid_prices b))),
          (''current_ema20'', Fixed 3 (last (py_tail 10 ema_all))),
          (''current_macd'', Fixed 3 (if macds \<noteq> [] then last macds else 0)),
          (''current_rsi7'', Fixed 3 (if rsis \<noteq> [] then last rsis else 50)),
          (''oi_latest'', Fixed 2 (oi_latest y)),
          (''oi_average'', Fixed 2 (oi_latest y * (999 / 1000))),
          (''funding_rate'', Fixed 8 (funding_rate y)),
          (''mid_prices'', PlainList (mid_prices b)),
          (''ema20_list'', PlainList (map (\<lambda>x. py_round x 3) (py_tail 10 ema_all))),
          (''macd_list'', PlainList macds),
          (''rsi7_list'', PlainList rsis),
          (''rsi14_list'', PlainList (replicate 10 60)),
          (''ema20_4h'', Fixed 3 (fst (ema_4h pf r4))),
          (''ema50_4h'', Fixed 3 (snd (ema_4h pf r4))),
          (''atr3_4h'', Fixed 3 (atr14_of (mid_prices b))),
          (''atr14_4h'', Fixed 3 (atr14_of (mid_prices b))),
          (''current_volume'', Fixed 3 (last (volumes b))),
          (''average_volume'', Fixed 3 (sum_list (volumes b) / real (length (volumes b)))),
          (''macd_list_4h'', PlainList (replicate 10 100)),
          (''rsi14_list_4h'', PlainList (replicate 10 60)),
          (''bid_vol'', Fixed 1 (bid_vol_top5 b)),
          (''ask_vol'', Fixed 1 (ask_vol_top5 b)),
          (''imbalance'', Fixed 3 (order_book_imbalance b)),
          (''taker_buy_volume'', Fixed 1 (last (taker_buy_volumes b))),
          (''taker_buy_share'', Fixed 1 (last (taker_buy_volumes b) / last (volumes b) * 100)),
          (''long_liq'', PlainJson (fst liq)),
          (''short_liq'', PlainJson (snd liq)),
          (''vol_regime'', Label (vol_regime (atr14_of (mid_prices b) / last (mid_prices b)))),
          (''atr_1h'', Fixed 1 (atr14_of (mid_prices b)))]"
proof -
  note t = calculate_ema_tail [OF assms(6), of 10]
  show ?thesis
    unfolding build_report_def Let_def
    using assms(1-5) t by (simp add: assms(6-8) py_last_def py_div_def)
qed

lemma build_report_steps:
  assumes "mid_prices b \<noteq> []"
  obtains ema_all macds rsis where
    "calculate_ema (mid_prices b) 20 = Inr ema_all" "py_tail 10 ema_all \<noteq> []"
    "macd_list (mid_prices b) = Inr macds" "rsi7_list (mid_prices b) = Inr rsis"
proof -
  from calculate_ema_nonempty [OF assms, of 20] obtain ema_all
    where e: "calculate_ema (mid_prices b) 20 = Inr ema_all" "length ema_all = length (mid_prices b)"
    by blast
  from e(2) assms have "ema_all \<noteq> []" by auto
  then have t: "py_tail 10 ema_all \<noteq> []" by (rule py_tail_nonempty)
  from macd_list_length [of "mid_prices b"] obtain macds
    where m: "macd_list (mid_prices b) = Inr macds" by blast
  from rsi7_list_length [of "mid_prices b"] obtain rsis
    where r: "rsi7_list (mid_prices b) = Inr rsis" by blast
  from that e(1) t m r show ?thesis by blast
qed

lemma build_report_ok:
  assumes "mid_prices b \<noteq> []" "last (mid_prices b) \<noteq> 0" "volumes b \<noteq> []"
    "last (volumes b) \<noteq> 0" "taker_buy_volumes b \<noteq> []"
  shows "\<exists>r. build_report pf b y liq r4 ts = Inr r"
proof -
  from build_report_steps [OF assms(1)] obtain ema_all macds rsis where
    s: "calculate_ema (mid_prices b) 20 = Inr ema_all" "py_tail 10 ema_all \<noteq> []"
    "macd_list (mid_prices b) = Inr macds" "rsi7_list (mid_prices b) = Inr rsis"
    by blast
  show ?thesis
    unfolding build_report_def Let_def
    using assms by (simp add: s py_last_def py_div_def)
qed

lemma build_report_zero_volume:
  assumes "mid_prices b \<noteq> []" "volumes b \<noteq> []" "taker_buy_volumes b \<noteq> []"
    "last (volumes b) = 0"
  shows "build_report pf b y liq r4 ts = Inl ZeroDivisionError"
proof -
  from build_report_steps [OF assms(1)] obtain ema_all macds rsis where
    s: "calculate_ema (mid_prices b) 20 = Inr ema_all" "py_tail 10 ema_all \<noteq> []"
    "macd_list (mid_prices b) = Inr macds" "rsi7_list (mid_prices b) = Inr rsis"
    by blast
  show ?thesis
    unfolding build_report_def Let_def
    using assms by (simp add: s py_last_def py_div_def)
qed

lemma build_report_conditions:
  assumes "build_report pf b y liq r4 ts = Inr r"
  shows "mid_prices b \<noteq> [] \<and> last (mid_prices b) \<noteq> 0 \<and> volumes b \<noteq> []
       \<and> last (volumes b) \<noteq> 0 \<and> taker_buy_volumes b \<noteq> []"
proof -
  have p: "mid_prices b \<noteq> []"
  proof
    assume "mid_prices b = []"
    then have "build_report pf b y liq r4 ts = Inl IndexError"
      by (simp add: build_report_def py_last_def)
    with assms show False by simp
  qed
  from build_report_steps [OF p] obtain ema_all macds rsis where
    s: "calculate_ema (mid_prices b) 20 = Inr ema_all" "py_tail 10 ema_all \<noteq> []"
    "macd_list (mid_prices b) = Inr macds" "rsi7_list (mid_prices b) = Inr rsis"
    by blast
  have c: "last (mid_prices b) \<noteq> 0"
  proof
    assume "last (mid_prices b) = 0"
    then have "build_report pf b y liq r4 ts = Inl ZeroDivisionError"
      unfolding build_report_def Let_def using p by (simp add: s py_last_def py_div_def)
    with assms show False by simp
  qed
  have v: "volumes b \<noteq> []"
  proof
    assume "volumes b = []"
    then have "build_report pf b y liq r4 ts = Inl IndexError"
      unfolding build_report_def Let_def using p c by (simp add: s py_last_def py_div_def)
    with assms show False by simp
  qed
  have t: "taker_buy_volumes b \<noteq> []"
  proof
    assume "taker_buy_volumes b = []"
    then have "build_report pf b y liq r4 ts = Inl IndexError"
      unfolding build_report_def Let_def using p c v by (simp add: s py_last_def py_div_def)
    with assms show False by simp
  qed
  have z: "last (volumes b) \<noteq> 0"
  proof
    assume "last (volumes b) = 0"
    with p v t have "build_report pf b y liq r4 ts = Inl ZeroDivisionError"
      by (rule build_report_zero_volume)
    with assms show False by simp
  qed
  from p c v z t show ?thesis by simp
qed

lemma build_report_shape:
  assumes "build_report pf b y liq r4 ts = Inr r"
  shows "\<exists>ema_all macds rsis.
      calculate_ema (mid_prices b) 20 = Inr ema_all
    \<and> macd_list (mid_prices b) = Inr macds \<and> rsi7_list (mid_prices b) = Inr rsis
    \<and> r =
         [(''timestamp'', Label ts),
          (''current_price'', Plain (last (mid_prices b))),
          (''current_ema20'', Fixed 3 (last (py_tail 10 ema_all))),
          (''current_macd'', Fixed 3 (if macds \<noteq> [] then last macds else 0)),
          (''current_rsi7'', Fixed 3 (if rsis \<noteq> [] then last rsis else 50)),
          (''oi_latest'', Fixed 2 (oi_latest y)),
          (''oi_average'', Fixed 2 (oi_latest y * (999 / 1000))),
          (''funding_rate'', Fixed 8 (funding_rate y)),
          (''mid_prices'', PlainList (mid_prices b)),
          (''ema20_list'', PlainList (map (\<lambda>x. py_round x 3) (py_tail 10 ema_all))),
          (''macd_list'', PlainList macds),
          (''rsi7_list'', PlainList rsis),
          (''rsi14_list'', PlainList (replicate 10 60)),
          (''ema20_4h'', Fixed 3 (fst (ema_4h pf r4))),
          (''ema50_4h'', Fixed 3 (snd (ema_4h pf r4))),
          (''atr3_4h'', Fixed 3 (atr14_of (mid_prices b))),
          (''atr14_4h'', Fixed 3 (atr14_of (mid_prices b))),
          (''current_volume'', Fixed 3 (last (volumes b))),
          (''average_volume'', Fixed 3 (sum_list (volumes b) / real (length (volumes b)))),
          (''macd_list_4h'', PlainList (replicate 10 100)),
          (''rsi14_list_4h'', PlainList (replicate 10 60)),
          (''bid_vol'', Fixed 1 (bid_vol_top5 b)),
          (''ask_vol'', Fixed 1 (ask_vol_top5 b)),
          (''imbalance'', Fixed 3 (order_book_imbalance b)),
          (''taker_buy_volume'', Fixed 1 (last (taker_buy_volumes b))),
          (''taker_buy_share'', Fixed 1 (last (taker_buy_volumes b) / last (volumes b) * 100)),
          (''long_liq'', PlainJson (fst liq)),
          (''short_liq'', PlainJson (snd liq)),
          (''vol_regime'', Label (vol_regime (atr14_of (mid_prices b) / last (mid_prices b)))),
          (''atr_1h'', Fixed 1 (atr14_of (mid_prices b)))]"
proof -
  from build_report_conditions [OF assms]
  have c: "mid_prices b \<noteq> []" "last (mid_prices b) \<noteq> 0" "volumes b \<noteq> []"
    "last (volumes b) \<noteq> 0" "taker_buy_volumes b \<noteq> []"
    by simp_all
  from build_report_steps [OF c(1)] obtain ema_all macds rsis where
    s: "calculate_ema (mid_prices b) 20 = Inr ema_all" "py_tail 10 ema_all \<noteq> []"
    "macd_list (mid_prices b) = Inr macds" "rsi7_list (mid_prices b) = Inr rsis"
    by blast
  from build_report_eq [OF c s(1) s(3) s(4), of pf y liq r4 ts] assms
  have "r =
         [(''timestamp'', Label ts),
          (''current_price'', Plain (last (mid_prices b))),
          (''current_ema20'', Fixed 3 (last (py_tail 10 ema_all))),
          (''current_macd'', Fixed 3 (if macds \<noteq> [] then last macds else 0)),
          (''current_rsi7'', Fixed 3 (if rsis \<noteq> [] then last rsis else 50)),
          (''oi_latest'', Fixed 2 (oi_latest y)),
          (''oi_average'', Fixed 2 (oi_latest y * (999 / 1000))),
          (''funding_rate'', Fixed 8 (funding_rate y)),
          (''mid_prices'', PlainList (mid_prices b)),
          (''ema20_list'', PlainList (map (\<lambda>x. py_round x 3) (py_tail 10 ema_all))),
          (''macd_list'', PlainList macds),
          (''rsi7_list'', PlainList rsis),
          (''rsi14_list'', PlainList (replicate 10 60)),
          (''ema20_4h'', Fixed 3 (fst (ema_4h pf r4))),
          (''ema50_4h'', Fixed 3 (snd (ema_4h pf r4))),
          (''atr3_4h'', Fixed 3 (atr14_of (mid_prices b))),
          (''atr14_4h'', Fixed 3 (atr14_of (mid_prices b))),
          (''current_volume'', Fixed 3 (last (volumes b))),
          (''average_volume'', Fixed 3 (sum_list (volumes b) / real (length (volumes b)))),
          (''macd_list_4h'', PlainList (replicate 10 100)),
          (''rsi14_list_4h'', PlainList (replicate 10 60)),
          (''bid_vol'', Fixed 1 (bid_vol_top5 b)),
          (''ask_vol'', Fixed 1 (ask_vol_top5 b)),
          (''imbalance'', Fixed 3 (order_book_imbalance b)),
          (''taker_buy_volume'', Fixed 1 (last (taker_buy_volumes b))),
          (''taker_buy_share'', Fixed 1 (last (taker_buy_volumes b) / last (volumes b) * 100)),
          (''long_liq'', PlainJson (fst liq)),
          (''short_liq'', PlainJson (snd liq)),
          (''vol_regime'', Label (vol_regime (atr14_of (mid_prices b) / last (mid_prices b)))),
          (''atr_1h'', Fixed 1 (atr14_of (mid_prices b)))]"
    by simp
  with s show ?thesis by blast
qed

lemma fetch_klines_lengths:
  assumes "fetch_klines pf kr = Inr (closes, vols, takers)"
  shows "closes \<noteq> [] \<and> length vols = length closes \<and> length takers = length closes"
proof (cases kr)
  case Failed
  with assms show ?thesis by (simp add: fetch_klines_def)
next
  case (Reply st body)
  show ?thesis
  proof (cases body)
    case None
    with assms Reply show ?thesis by (auto simp: fetch_klines_def json_of_def ebind_eq_Inr)
  next
    case (Some j)
    show ?thesis
    proof (cases j)
      case (JArr ks)
      with assms Reply Some have ks: "ks \<noteq> []" "kline_column pf 4 ks = Inr closes"
        "kline_column pf 5 ks = Inr vols" "kline_column pf 9 ks = Inr takers"
        by (auto simp: fetch_klines_def json_of_def ebind_eq_Inr split: if_splits)
      from ks(2-4) have "length closes = length ks" "length vols = length ks"
        "length takers = length ks"
        unfolding kline_column_def by (auto dest: emap_Inr_length)
      with ks(1) show ?thesis by auto
    qed (insert assms Reply Some, auto simp: fetch_klines_def json_of_def ebind_eq_Inr)
  qed
qed

lemma binance_bag_nonempty:
  "mid_prices (get_binance_data pf kr dr) \<noteq> []
   \<and> volumes (get_binance_data pf kr dr) \<noteq> []
   \<and> taker_buy_volumes (get_binance_data pf kr dr) \<noteq> []"
  using get_binance_data_cases [of pf kr dr]
proof
  assume "get_binance_data pf kr dr = binance_fallback"
  then show ?thesis by (simp add: binance_fallback_def)
next
  assume "\<exists>closes vols takers bid_vol ask_vol.
         fetch_klines pf kr = Inr (closes, vols, takers)
       \<and> fetch_depth pf dr = Inr (bid_vol, ask_vol)
       \<and> get_binance_data pf kr dr =
           \<lparr> mid_prices = closes, volumes = vols, taker_buy_volumes = takers,
             order_book_imbalance = py_round (imbalance_of bid_vol ask_vol) 4,
             bid_vol_top5 = bid_vol, ask_vol_top5 = ask_vol \<rparr>"
  then obtain closes vols takers bid_vol ask_vol where
    k: "fetch_klines pf kr = Inr (closes, vols, takers)" and
    g: "get_binance_data pf kr dr =
           \<lparr> mid_prices = closes, volumes = vols, taker_buy_volumes = takers,
             order_book_imbalance = py_round (imbalance_of bid_vol ask_vol) 4,
             bid_vol_top5 = bid_vol, ask_vol_top5 = ask_vol \<rparr>"
    by blast
  from fetch_klines_lengths [OF k] show ?thesis by (auto simp: g)
qed

lemmas fetch_simps =
  get_binance_data_def fetch_binance_def fetch_klines_def fetch_depth_def
  raise_for_status_def json_of_def kline_column_def py_index_def py_float_def py_in_def
  side_volume_def py_getitem_def py_iter_def imbalance_of_def

lemma quiet_fetch:
  "get_binance_data (\<lambda>s. None) (Reply 200 (Some quiet_klines)) (Reply 200 (Some sample_depth)) =
     \<lparr> mid_prices = [100], volumes = [0], taker_buy_volumes = [0],
       order_book_imbalance = 0, bid_vol_top5 = 1, ask_vol_top5 = 1 \<rparr>"
  by (simp add: fetch_simps quiet_klines_def candle_def sample_depth_def py_round_zero)

lemma py_round_third: "py_round (1 / 3) 4 = 3333 / 10000"
  by (simp add: py_round_def round_half_even_def Let_def)

lemma skewed_fetch:
  "get_binance_data (\<lambda>s. None) (Reply 200 (Some sample_klines)) (Reply 200 (Some skewed_depth)) =
     \<lparr> mid_prices = [100], volumes = [2], taker_buy_volumes = [1],
       order_book_imbalance = 3333 / 10000, bid_vol_top5 = 2, ask_vol_top5 = 1 \<rparr>"
  by (simp add: fetch_simps sample_klines_def skewed_depth_def py_round_third)

lemma empty_book_fetch:
  "get_binance_data (\<lambda>s. None) (Reply 200 (Some sample_klines)) (Reply 200 (Some empty_depth)) =
     \<lparr> mid_prices = [100], volumes = [2], taker_buy_volumes = [1],
       order_book_imbalance = 0, bid_vol_top5 = 0, ask_vol_top5 = 0 \<rparr>"
  by (simp add: fetch_simps sample_klines_def empty_depth_def py_round_zero)

lemma scenario_fetch:
  "get_binance_data (\<lambda>s. None) (Reply 200 (Some scenario_klines)) (Reply 200 (Some sample_depth)) =
     \<lparr> mid_prices = [100, 101, 102, 103, 104, 105, 106, 107, 108, 109],
       volumes = replicate 10 1, taker_buy_volumes = replicate 10 (1 / 2),
       order_book_imbalance = 0, bid_vol_top5 = 1, ask_vol_top5 = 1 \<rparr>"
  by (simp add: fetch_simps scenario_klines_def candle_def sample_depth_def py_round_zero
      numeral_eq_Suc)

lemma skewed_report: "\<exists>r. report_of (\<lambda>s. None) skewed_env = Inr r"
  unfolding report_of_def
  by (rule build_report_ok) (simp_all add: skewed_env_def offline_env_def skewed_fetch)

lemma digit_not_point: "k < 10 \<Longrightarrow> ''0123456789'' ! k \<noteq> CHR ''.''"
proof -
  assume "k < 10"
  then have "''0123456789'' ! k \<in> set ''0123456789''" by (intro nth_mem) simp
  then show ?thesis by auto
qed

lemma digits_of_no_point: "CHR ''.'' \<notin> set (digits_of k)"
proof (induction k rule: digits_of.induct)
  case (1 k)
  show ?case
  proof (cases "k < 10")
    case True
    then show ?thesis using digit_not_point [of k] by (subst digits_of.simps) auto
  next
    case False
    with 1 have "CHR ''.'' \<notin> set (digits_of (k div 10))" by simp
    moreover have "''0123456789'' ! (k mod 10) \<noteq> CHR ''.''" by (rule digit_not_point) simp
    ultimately show ?thesis using False by (subst digits_of.simps) auto
  qed
qed

lemma digits_of_length: "k < 10 ^ n \<Longrightarrow> 0 < n \<Longrightarrow> length (digits_of k) \<le> n"
proof (induction n arbitrary: k)
  case 0
  then show ?case by simp
next
  case (Suc n)
  show ?case
  proof (cases "k < 10")
    case True
    then show ?thesis by (subst digits_of.simps) simp
  next
    case False
    from Suc.prems have d: "k div 10 < 10 ^ n" by (simp add: less_mult_imp_div_less)
    from False Suc.prems have "0 < n" by (cases n) auto
    with Suc.IH d have "length (digits_of (k div 10)) \<le> n" by blast
    then show ?thesis using False by (subst digits_of.simps) simp
  qed
qed

lemma pad_digits_length: "k < 10 ^ n \<Longrightarrow> 0 < n \<Longrightarrow> length (pad_digits n k) = n"
  using digits_of_length [of k n] by (simp add: pad_digits_def)

lemma decimals_render_fixed:
  assumes "0 < n"
  shows "decimals (render_fixed n x) = n"
proof -
  define q where "q = nat (round_half_even (\<bar>x\<bar> * 10 ^ n))"
  define s where "s = (if x < 0 then ''-'' else []) @ digits_of (q div 10 ^ n)"
  define p where "p = pad_digits n (q mod 10 ^ n)"
  have r: "render_fixed n x = s @ CHR ''.'' # p"
    using assms by (simp add: render_fixed_def Let_def q_def s_def p_def)
  have "\<And>c. c \<in> set s \<Longrightarrow> c \<noteq> CHR ''.''"
    using digits_of_no_point [of "q div 10 ^ n"] by (auto simp: s_def)
  then have "dropWhile (\<lambda>c. c \<noteq> CHR ''.'') (s @ CHR ''.'' # p) = CHR ''.'' # p"
    by (simp add: dropWhile_append2)
  moreover have "length p = n"
    unfolding p_def using assms by (intro pad_digits_length) simp_all
  ultimately show ?thesis by (simp add: decimals_def r)
qed

lemma report_precision_list:
  assumes "build_report pf b y liq r4 ts = Inr r"
  shows "map (\<lambda>(l, c). (l, precision c)) r =
         [(''timestamp'', None), (''current_price'', None), (''current_ema20'', Some 3),
          (''current_macd'', Some 3), (''current_rsi7'', Some 3), (''oi_latest'', Some 2),
          (''oi_average'', Some 2), (''funding_rate'', Some 8), (''mid_prices'', None),
          (''ema20_list'', None), (''macd_list'', None), (''rsi7_list'', None),
          (''rsi14_list'', None), (''ema20_4h'', Some 3), (''ema50_4h'', Some 3),
          (''atr3_4h'', Some 3), (''atr14_4h'', Some 3), (''current_volume'', Some 3),
          (''average_volume'', Some 3), (''macd_list_4h'', None), (''rsi14_list_4h'', None),
          (''bid_vol'', Some 1), (''ask_vol'', Some 1), (''imbalance'', Some 3),
          (''taker_buy_volume'', Some 1), (''taker_buy_share'', Some 1), (''long_liq'', None),
          (''short_liq'', None), (''vol_regime'', None), (''atr_1h'', Some 1)]"
proof -
  from build_report_shape [OF assms]
  show ?thesis by (elim exE conjE) simp
qed

lemma skewed_fields:
  "report_field ''imbalance'' (report_of (\<lambda>s. None) skewed_env) = Some (Fixed 3 (3333 / 10000))
   \<and> report_field ''current_price'' (report_of (\<lambda>s. None) skewed_env) = Some (Plain 100)
   \<and> report_field ''current_volume'' (report_of (\<lambda>s. None) skewed_env) = Some (Fixed 3 2)
   \<and> report_field ''long_liq'' (report_of (\<lambda>s. None) skewed_env) = Some (PlainJson [JInt 0, JInt 0])"
proof -
  from skewed_report obtain r where r: "report_of (\<lambda>s. None) skewed_env = Inr r" by blast
  have l: "get_coinglass_liquidations None Failed = (zero_pair, zero_pair)"
    by (rule coinglass_fallback) simp
  from build_report_shape [OF r [unfolded report_of_def]]
  have "map_of r ''imbalance'' = Some (Fixed 3 (3333 / 10000))
      \<and> map_of r ''current_price'' = Some (Plain 100)
      \<and> map_of r ''current_volume'' = Some (Fixed 3 2)
      \<and> map_of r ''long_liq'' = Some (PlainJson [JInt 0, JInt 0])"
    by (elim exE conjE) (simp add: skewed_env_def offline_env_def skewed_fetch l zero_pair_def)
  then show ?thesis by (simp add: r report_field_def)
qed

lemma short_series_atr: "length prices < 15 \<Longrightarrow> atr14_of prices = 0"
  by (auto simp: atr14_of_def high_low_def)

lemma vol_regime_zero: "vol_regime 0 = ''low''"
  by (simp add: vol_regime_def)

lemma short_series_report:
  assumes "length (mid_prices b) < 15" and "build_report pf b y liq r4 ts = Inr r"
  shows "map_of r ''atr14_4h'' = Some (Fixed 3 0) \<and> map_of r ''atr_1h'' = Some (Fixed 1 0)
       \<and> map_of r ''vol_regime'' = Some (Label ''low'')"
proof -
  note a = short_series_atr [OF assms(1)]
  from build_report_shape [OF assms(2)]
  show ?thesis by (elim exE conjE) (simp add: a vol_regime_zero)
qed

lemma scenario_report:
  assumes "mid_prices b = [100, 101, 102, 103, 104, 105, 106, 107, 108, 109]"
    and "volumes b = replicate 10 1" and "taker_buy_volumes b = replicate 10 (1 / 2)"
  shows "\<exists>r. build_report pf b y liq r4 ts = Inr r
       \<and> map_of r ''current_price'' = Some (Plain 109)
       \<and> map_of r ''current_rsi7'' = Some (Fixed 3 50)
       \<and> map_of r ''atr14_4h'' = Some (Fixed 3 0) \<and> map_of r ''atr_1h'' = Some (Fixed 1 0)
       \<and> map_of r ''vol_regime'' = Some (Label ''low'')"
proof -
  have rs: "rsi7_list [100, 101, 102, 103, 104, 105, 106, 107, 108, 109] = Inr [50, 50, 50]"
    by code_simp
  have "\<exists>r. build_report pf b y liq r4 ts = Inr r"
    by (rule build_report_ok) (simp_all add: assms)
  then obtain r where r: "build_report pf b y liq r4 ts = Inr r" by blast
  have l: "length (mid_prices b) < 15" by (simp add: assms)
  from build_report_shape [OF r]
  have "\<exists>rsis. rsi7_list (mid_prices b) = Inr rsis
      \<and> map_of r ''current_price'' = Some (Plain (last (mid_prices b)))
      \<and> map_of r ''current_rsi7'' = Some (Fixed 3 (if rsis \<noteq> [] then last rsis else 50))"
    by (elim exE conjE) simp
  then have "map_of r ''current_price'' = Some (Plain 109)
      \<and> map_of r ''current_rsi7'' = Some (Fixed 3 50)"
    unfolding assms(1) rs by auto
  with short_series_report [OF l r] r show ?thesis by simp
qed

lemma fallback_report:
  assumes "mid_prices b = replicate 10 60000"
    and "volumes b = replicate 10 1" and "taker_buy_volumes b = replicate 10 (1 / 2)"
  shows "\<exists>r. build_report pf b y liq r4 ts = Inr r
       \<and> map_of r ''current_price'' = Some (Plain 60000)
       \<and> map_of r ''current_rsi7'' = Some (Fixed 3 0)
       \<and> map_of r ''atr14_4h'' = Some (Fixed 3 0) \<and> map_of r ''atr_1h'' = Some (Fixed 1 0)
       \<and> map_of r ''vol_regime'' = Some (Label ''low'')"
proof -
  have rs: "rsi7_list (replicate 10 60000) = Inr [0, 0, 0]"
    by code_simp
  have "\<exists>r. build_report pf b y liq r4 ts = Inr r"
    by (rule build_report_ok) (simp_all add: assms)
  then obtain r where r: "build_report pf b y liq r4 ts = Inr r" by blast
  have l: "length (mid_prices b) < 15" by (simp add: assms)
  from build_report_shape [OF r]
  have "\<exists>rsis. rsi7_list (mid_prices b) = Inr rsis
      \<and> map_of r ''current_price'' = Some (Plain (last (mid_prices b)))
      \<and> map_of r ''current_rsi7'' = Some (Fixed 3 (if rsis \<noteq> [] then last rsis else 50))"
    by (elim exE conjE) simp
  then have "map_of r ''current_price'' = Some (Plain 60000)
      \<and> map_of r ''current_rsi7'' = Some (Fixed 3 0)"
    unfolding assms(1) rs by auto
  with short_series_report [OF l r] r show ?thesis by simp
qed

lemma empty_klines_fallback:
  "get_binance_data pf (Reply st (Some (JArr []))) dr = binance_fallback"
proof -
  from fetch_klines_fails [of "Reply st (Some (JArr []))" pf]
  obtain e where "fetch_klines pf (Reply st (Some (JArr []))) = Inl e" by auto
  then show ?thesis by (rule klines_failed_fallback)
qed

lemma empty_klines_report:
  assumes "klines_reply env = Reply st (Some (JArr []))"
  shows "\<exists>r. report_of pf env = Inr r
       \<and> map_of r ''current_price'' = Some (Plain 60000)
       \<and> map_of r ''current_rsi7'' = Some (Fixed 3 0)
       \<and> map_of r ''atr14_4h'' = Some (Fixed 3 0) \<and> map_of r ''atr_1h'' = Some (Fixed 1 0)
       \<and> map_of r ''vol_regime'' = Some (Label ''low'')"
  unfolding report_of_def assms empty_klines_fallback
  by (rule fallback_report) (simp_all add: binance_fallback_def)

section \<open>Volatility regime\<close>

text \<open>
  C2. The classification is defined on every ratio: it is "high" exactly when the ratio
  is above 0.005, "low" exactly when it is below 0.002 and "normal" otherwise; the
  ratios 0.002 and 0.005 themselves are "normal".
\<close>

theorem vol_regime_total:
  "(vol_regime r = ''high'') = (5 / 1000 < r)
   \<and> (vol_regime r = ''low'') = (r < 2 / 1000)
   \<and> (vol_regime r = ''normal'') = (2 / 1000 \<le> r \<and> r \<le> 5 / 1000)
   \<and> vol_regime (2 / 1000) = ''normal''
   \<and> vol_regime (5 / 1000) = ''normal''"
  by (simp add: vol_regime_def)

section \<open>Relative strength index\<close>

text \<open>
  C6. For every price series \<^verbatim>\<open>calculate_rsi\<close> with period 7 returns (it never raises)
  a number between 0 and 100, and it returns exactly 50 when the series has fewer than 8
  elements.
\<close>

theorem calculate_rsi_bounded:
  "(\<exists>r. calculate_rsi prices 7 = Inr r \<and> 0 \<le> r \<and> r \<le> 100)
   \<and> (length prices < 8 \<longrightarrow> calculate_rsi prices 7 = Inr 50)"
  using calculate_rsi_range [of prices] calculate_rsi_short [of prices] by blast

theorem calculate_rsi_bounded_witness:
  "length [1, 2, 3 :: real] < 8 \<and> calculate_rsi [1, 2, 3] 7 = Inr 50"
  using calculate_rsi_bounded [of "[1, 2, 3]"] by simp

section \<open>Rolling lists\<close>

text \<open>
  C7. For a primary series of at least 10 prices both loops of \<^verbatim>\<open>main\<close> finish
  without a raise; the MACD list has \<open>len - 9\<close> entries and the RSI list \<open>len - 7\<close>.
  For 10 prices that is 1 MACD value and 3 RSI values.
\<close>

theorem rolling_list_lengths:
  "10 \<le> length prices \<Longrightarrow>
     \<exists>ms rs. macd_list prices = Inr ms \<and> rsi7_list prices = Inr rs
       \<and> int (length ms) = int (length prices) - 9
       \<and> int (length rs) = int (length prices) - 7"
proof -
  assume len: "10 \<le> length prices"
  from macd_list_length [of prices] obtain ms
    where ms: "macd_list prices = Inr ms" "length ms = length prices + 1 - 10" by blast
  from rsi7_list_length [of prices] obtain rs
    where rs: "rsi7_list prices = Inr rs" "length rs = length prices + 1 - 8" by blast
  from len ms rs show ?thesis by simp
qed

theorem rolling_list_lengths_witness:
  "10 \<le> length [100, 101, 102, 103, 104, 105, 106, 107, 108, 109 :: real]
   \<and> (\<exists>ms rs. macd_list [100, 101, 102, 103, 104, 105, 106, 107, 108, 109] = Inr ms
        \<and> rsi7_list [100, 101, 102, 103, 104, 105, 106, 107, 108, 109] = Inr rs
        \<and> length ms = 1 \<and> length rs = 3)"
  using rolling_list_lengths [of "[100, 101, 102, 103, 104, 105, 106, 107, 108, 109]"]
  by simp

section \<open>Order-book imbalance\<close>

text \<open>
  C8. For non-negative top-5 volumes the imbalance that \<^verbatim>\<open>get_binance_data\<close> returns
  is \<open>(bid - ask) / (bid + ask)\<close> rounded to 4 decimals (0 when \<open>bid + ask = 0\<close>), it
  lies in \<open>[-1, 1]\<close>, and it is 0 when \<open>bid + ask = 0\<close>.
\<close>

theorem order_book_imbalance_range:
  assumes "bag = get_binance_data pf kr dr"
    and "0 \<le> bid_vol_top5 bag" and "0 \<le> ask_vol_top5 bag"
  shows "order_book_imbalance bag =
           py_round (if bid_vol_top5 bag + ask_vol_top5 bag = 0 then 0
                     else (bid_vol_top5 bag - ask_vol_top5 bag)
                          / (bid_vol_top5 bag + ask_vol_top5 bag)) 4
         \<and> - 1 \<le> order_book_imbalance bag \<and> order_book_imbalance bag \<le> 1
         \<and> (bid_vol_top5 bag + ask_vol_top5 bag = 0 \<longrightarrow> order_book_imbalance bag = 0)"
proof -
  have eq: "order_book_imbalance bag = py_round (imbalance_of (bid_vol_top5 bag) (ask_vol_top5 bag)) 4"
    unfolding assms(1) by (rule get_binance_data_imbalance)
  have r: "- 1 \<le> imbalance_of (bid_vol_top5 bag) (ask_vol_top5 bag)
        \<and> imbalance_of (bid_vol_top5 bag) (ask_vol_top5 bag) \<le> 1"
    by (rule imbalance_of_range [OF assms(2) assms(3)])
  have f: "imbalance_of (bid_vol_top5 bag) (ask_vol_top5 bag) =
        (if bid_vol_top5 bag + ask_vol_top5 bag = 0 then 0
         else (bid_vol_top5 bag - ask_vol_top5 bag) / (bid_vol_top5 bag + ask_vol_top5 bag))"
    using assms(2,3) by (auto simp: imbalance_of_def)
  from r have b: "- 1 \<le> order_book_imbalance bag \<and> order_book_imbalance bag \<le> 1"
    unfolding eq using py_round_bounds by blast
  show ?thesis using b eq f by (auto simp: py_round_zero)
qed

theorem order_book_imbalance_range_witness:
  "order_book_imbalance
     (get_binance_data (\<lambda>s. None) (Reply 200 (Some sample_klines)) (Reply 200 (Some skewed_depth)))
     = 3333 / 10000
   \<and> order_book_imbalance
     (get_binance_data (\<lambda>s. None) (Reply 200 (Some sample_klines)) (Reply 200 (Some empty_depth)))
     = 0"
  using
    order_book_imbalance_range [of
      "get_binance_data (\<lambda>s. None) (Reply 200 (Some sample_klines)) (Reply 200 (Some skewed_depth))"
      "\<lambda>s. None" "Reply 200 (Some sample_klines)" "Reply 200 (Some skewed_depth)"]
    order_book_imbalance_range [of
      "get_binance_data (\<lambda>s. None) (Reply 200 (Some sample_klines)) (Reply 200 (Some empty_depth))"
      "\<lambda>s. None" "Reply 200 (Some sample_klines)" "Reply 200 (Some empty_depth)"]
  by (simp add: skewed_fetch empty_book_fetch py_round_third)

section \<open>Exchange-A adapter: all or nothing\<close>

text \<open>
  C4 (as the code has it). \<^verbatim>\<open>get_binance_data\<close> returns the complete fallback bag
  whenever a request raises, a status is 4xx or 5xx (what \<^verbatim>\<open>raise_for_status\<close>
  rejects), a body is not JSON, the klines are not a list or an empty one, or the depth
  is not an object with both \<^verbatim>\<open>bids\<close> and \<^verbatim>\<open>asks\<close>. Its result is always either
  that fallback bag or a bag whose six fields all come from the two replies, and it
  always returns a bag (no raise reaches the caller). The fallback bag is ten prices
  60000.0, ten volumes 1.0, ten taker-buy volumes 0.5, imbalance 0.0, bid and ask
  volume 10.0.
\<close>

theorem binance_all_or_nothing:
  "((kr = Failed
     \<or> (\<exists>st b. kr = Reply st b \<and> 400 \<le> st \<and> st < 600)
     \<or> (\<exists>st. kr = Reply st None)
     \<or> (\<exists>st j. kr = Reply st (Some j) \<and> (\<forall>ks. j = JArr ks \<longrightarrow> ks = []))
     \<or> dr = Failed
     \<or> (\<exists>st b. dr = Reply st b \<and> 400 \<le> st \<and> st < 600)
     \<or> (\<exists>st. dr = Reply st None)
     \<or> (\<exists>st d. dr = Reply st (Some d)
           \<and> (\<forall>kvs. d = JObj kvs \<longrightarrow> ''bids'' \<notin> fst ` set kvs \<or> ''asks'' \<notin> fst ` set kvs)))
    \<longrightarrow> get_binance_data pf kr dr = binance_fallback)
   \<and> (get_binance_data pf kr dr = binance_fallback
      \<or> (\<exists>closes vols takers bid_vol ask_vol.
            fetch_klines pf kr = Inr (closes, vols, takers)
          \<and> fetch_depth pf dr = Inr (bid_vol, ask_vol)
          \<and> get_binance_data pf kr dr =
              \<lparr> mid_prices = closes, volumes = vols, taker_buy_volumes = takers,
                order_book_imbalance = py_round (imbalance_of bid_vol ask_vol) 4,
                bid_vol_top5 = bid_vol, ask_vol_top5 = ask_vol \<rparr>))
   \<and> binance_fallback =
       \<lparr> mid_prices = replicate 10 60000, volumes = replicate 10 1,
         taker_buy_volumes = replicate 10 (1 / 2), order_book_imbalance = 0,
         bid_vol_top5 = 10, ask_vol_top5 = 10 \<rparr>"
proof (intro conjI impI)
  assume f: "kr = Failed
     \<or> (\<exists>st b. kr = Reply st b \<and> 400 \<le> st \<and> st < 600)
     \<or> (\<exists>st. kr = Reply st None)
     \<or> (\<exists>st j. kr = Reply st (Some j) \<and> (\<forall>ks. j = JArr ks \<longrightarrow> ks = []))
     \<or> dr = Failed
     \<or> (\<exists>st b. dr = Reply st b \<and> 400 \<le> st \<and> st < 600)
     \<or> (\<exists>st. dr = Reply st None)
     \<or> (\<exists>st d. dr = Reply st (Some d)
           \<and> (\<forall>kvs. d = JObj kvs \<longrightarrow> ''bids'' \<notin> fst ` set kvs \<or> ''asks'' \<notin> fst ` set kvs))"
  then consider
    (k) "kr = Failed
     \<or> (\<exists>st b. kr = Reply st b \<and> 400 \<le> st \<and> st < 600)
     \<or> (\<exists>st. kr = Reply st None)
     \<or> (\<exists>st j. kr = Reply st (Some j) \<and> (\<forall>ks. j = JArr ks \<longrightarrow> ks = []))"
  | (d) "dr = Failed
     \<or> (\<exists>st b. dr = Reply st b \<and> 400 \<le> st \<and> st < 600)
     \<or> (\<exists>st. dr = Reply st None)
     \<or> (\<exists>st d. dr = Reply st (Some d)
           \<and> (\<forall>kvs. d = JObj kvs \<longrightarrow> ''bids'' \<notin> fst ` set kvs \<or> ''asks'' \<notin> fst ` set kvs))"
    by blast
  then show "get_binance_data pf kr dr = binance_fallback"
  proof cases
    case k
    from fetch_klines_fails [OF k, of pf] obtain e where "fetch_klines pf kr = Inl e" by blast
    then show ?thesis by (rule klines_failed_fallback)
  next
    case d
    from fetch_depth_fails [OF d, of pf] obtain e where "fetch_depth pf dr = Inl e" by blast
    then show ?thesis by (rule depth_error_fallback)
  qed
next
  show "get_binance_data pf kr dr = binance_fallback
      \<or> (\<exists>closes vols takers bid_vol ask_vol.
            fetch_klines pf kr = Inr (closes, vols, takers)
          \<and> fetch_depth pf dr = Inr (bid_vol, ask_vol)
          \<and> get_binance_data pf kr dr =
              \<lparr> mid_prices = closes, volumes = vols, taker_buy_volumes = takers,
                order_book_imbalance = py_round (imbalance_of bid_vol ask_vol) 4,
                bid_vol_top5 = bid_vol, ask_vol_top5 = ask_vol \<rparr>)"
    by (rule get_binance_data_cases)
next
  show "binance_fallback =
       \<lparr> mid_prices = replicate 10 60000, volumes = replicate 10 1,
         taker_buy_volumes = replicate 10 (1 / 2), order_book_imbalance = 0,
         bid_vol_top5 = 10, ask_vol_top5 = 10 \<rparr>"
    by (simp add: binance_fallback_def)
qed

theorem binance_all_or_nothing_witness:
  "get_binance_data (\<lambda>s. None) (Reply 200 (Some (JArr []))) (Reply 200 (Some sample_depth))
     = binance_fallback
   \<and> mid_prices binance_fallback = replicate 10 60000"
  using binance_all_or_nothing [of "Reply 200 (Some (JArr []))" "Reply 200 (Some sample_depth)" "\<lambda>s. None"]
  by (simp add: binance_fallback_def)

text \<open>
  A status outside 2xx that is not 4xx or 5xx does not raise: with status 300 and
  well-formed bodies the adapter returns the replies' data, not the fallback bag.
\<close>

theorem binance_status_300_counterexample:
  "get_binance_data (\<lambda>s. None) (Reply 300 (Some sample_klines)) (Reply 200 (Some sample_depth))
     = \<lparr> mid_prices = [100], volumes = [2], taker_buy_volumes = [1],
         order_book_imbalance = 0, bid_vol_top5 = 1, ask_vol_top5 = 1 \<rparr>
   \<and> get_binance_data (\<lambda>s. None) (Reply 300 (Some sample_klines)) (Reply 200 (Some sample_depth))
     \<noteq> binance_fallback"
  by (simp add: get_binance_data_def sample_fetch binance_fallback_def)

section \<open>Exchange-C adapter: liquidation levels\<close>

text \<open>
  C5 (as the code has it). \<^verbatim>\<open>get_coinglass_liquidations\<close> always returns two lists of
  one or two levels each. Both are \<open>[0, 0]\<close> when the credential is missing or empty, the
  request raises, the status is not 200, or anything in the \<^verbatim>\<open>try\<close> raises. On a 200
  reply whose \<^verbatim>\<open>data\<close> is an object, a side whose list is absent or empty is \<open>[0, 0]\<close>,
  whatever the other side holds.
\<close>

theorem coinglass_levels:
  "1 \<le> length (fst (get_coinglass_liquidations key reply))
   \<and> length (fst (get_coinglass_liquidations key reply)) \<le> 2
   \<and> 1 \<le> length (snd (get_coinglass_liquidations key reply))
   \<and> length (snd (get_coinglass_liquidations key reply)) \<le> 2
   \<and> (key = None \<or> key = Some [] \<or> reply = Failed
       \<or> (\<exists>st b. reply = Reply st b \<and> st \<noteq> 200)
       \<or> (\<exists>e. fetch_liquidations key reply = Inl e)
      \<longrightarrow> get_coinglass_liquidations key reply = ([JInt 0, JInt 0], [JInt 0, JInt 0]))
   \<and> (\<forall>kvs inner. reply = Reply 200 (Some (JObj kvs)) \<and> map_of kvs ''data'' = Some (JObj inner)
      \<longrightarrow> (map_of inner ''longLiquidationList'' = None
            \<or> map_of inner ''longLiquidationList'' = Some (JArr [])
            \<longrightarrow> fst (get_coinglass_liquidations key reply) = [JInt 0, JInt 0])
        \<and> (map_of inner ''shortLiquidationList'' = None
            \<or> map_of inner ''shortLiquidationList'' = Some (JArr [])
            \<longrightarrow> snd (get_coinglass_liquidations key reply) = [JInt 0, JInt 0]))"
  using coinglass_lengths [of key reply] coinglass_fallback [of key reply]
    coinglass_side_fallback [of reply _ _ key]
  unfolding zero_pair_def by blast

theorem coinglass_levels_witness:
  "get_coinglass_liquidations None (Reply 200 (Some sample_liquidations))
     = ([JInt 0, JInt 0], [JInt 0, JInt 0])
   \<and> snd (get_coinglass_liquidations (Some ''key'') (Reply 200 (Some sample_liquidations)))
     = [JInt 0, JInt 0]"
  using coinglass_levels [of None "Reply 200 (Some sample_liquidations)"]
    coinglass_levels [of "Some ''key''" "Reply 200 (Some sample_liquidations)"]
  by (simp add: sample_liquidations_def)

text \<open>
  A long list with a single item gives a long side of length 1: the sides are not
  always of length 2.
\<close>

theorem coinglass_single_level_counterexample:
  "get_coinglass_liquidations (Some ''key'') (Reply 200 (Some sample_liquidations))
     = ([JFloat 59000], [JInt 0, JInt 0])
   \<and> length (fst (get_coinglass_liquidations (Some ''key'') (Reply 200 (Some sample_liquidations))))
     = 1"
  by (simp add: get_coinglass_liquidations_def fetch_liquidations_def json_of_def
      sample_liquidations_def liquidation_side_def py_in_def py_getitem_def py_slice_items_def
      zero_pair_def)

section \<open>Unguarded division by the latest volume\<close>

text \<open>
  C9. The report divides the latest taker-buy volume by the latest volume with no
  guard. Whatever the exchange answered, when the last volume of the adapter's result
  is 0 the run ends in a ZeroDivisionError and the file is left as it was: nothing is
  written. (The adapter's fallback has volume 1.0, so this needs a real answer of the
  exchange; when the last price is 0 as well the same error is raised a few lines
  earlier, by \<^verbatim>\<open>atr14 / current_price\<close>.)
\<close>

theorem zero_volume_raises:
  assumes "last (volumes (get_binance_data pf (klines_reply env) (depth_reply env))) = 0"
  shows "main pf env file = (Inl ZeroDivisionError, file)"
proof -
  let ?b = "get_binance_data pf (klines_reply env) (depth_reply env)"
  from binance_bag_nonempty [of pf "klines_reply env" "depth_reply env"]
  have ne: "mid_prices ?b \<noteq> []" "volumes ?b \<noteq> []" "taker_buy_volumes ?b \<noteq> []" by simp_all
  have "report_of pf env = Inl ZeroDivisionError"
    unfolding report_of_def by (rule build_report_zero_volume [OF ne assms])
  then show ?thesis by (simp add: main_def)
qed

theorem zero_volume_raises_witness:
  "last (volumes (get_binance_data (\<lambda>s. None) (klines_reply quiet_env) (depth_reply quiet_env))) = 0
   \<and> main (\<lambda>s. None) quiet_env None = (Inl ZeroDivisionError, None)"
  using zero_volume_raises [of "\<lambda>s. None" quiet_env None]
  by (simp add: quiet_env_def offline_env_def quiet_fetch)

section \<open>Constant indicator lines\<close>

text \<open>
  C10. Every report that is produced has the two 14-period RSI lines equal to the
  constant list of ten 60.0, the longer-term MACD line equal to the constant list of ten
  100.0, and the same value \<^verbatim>\<open>atr14\<close> (of the one-minute prices) under both the
  3-period and the 14-period ATR label.
\<close>

theorem constant_indicator_lines:
  assumes "report_of pf env = Inr r"
  shows "map_of r ''rsi14_list'' = Some (PlainList (replicate 10 60))
       \<and> map_of r ''rsi14_list_4h'' = Some (PlainList (replicate 10 60))
       \<and> map_of r ''macd_list_4h'' = Some (PlainList (replicate 10 100))
       \<and> map_of r ''atr3_4h'' =
           Some (Fixed 3 (atr14_of (mid_prices (get_binance_data pf (klines_reply env) (depth_reply env)))))
       \<and> map_of r ''atr14_4h'' =
           Some (Fixed 3 (atr14_of (mid_prices (get_binance_data pf (klines_reply env) (depth_reply env)))))"
proof -
  from build_report_shape [OF assms [unfolded report_of_def]]
  show ?thesis by (elim exE conjE) simp
qed

theorem constant_indicator_lines_witness:
  "\<exists>r. report_of (\<lambda>s. None) skewed_env = Inr r
     \<and> map_of r ''rsi14_list'' = Some (PlainList (replicate 10 60))
     \<and> map_of r ''rsi14_list_4h'' = Some (PlainList (replicate 10 60))
     \<and> map_of r ''macd_list_4h'' = Some (PlainList (replicate 10 100))
     \<and> map_of r ''atr3_4h'' = Some (Fixed 3 0)
     \<and> map_of r ''atr14_4h'' = Some (Fixed 3 0)"
proof -
  from skewed_report obtain r where r: "report_of (\<lambda>s. None) skewed_env = Inr r" by blast
  from constant_indicator_lines [OF r] r show ?thesis
    by (simp add: skewed_env_def offline_env_def skewed_fetch atr14_of_def high_low_def)
qed

section \<open>Precision of the rendered fields\<close>

text \<open>
  C3 (as the code has it). The format of every replacement field of the report, in
  the order of the text: three decimals for the current EMA, MACD and RSI, the 4-hour
  EMAs, both ATR fields, the current and average volume and the order-book imbalance;
  two decimals for the open interest and its average; eight for the funding rate; one
  decimal for the bid, ask and taker-buy volumes, the taker-buy share and the ATR of the
  regime line. The current price, the series and the liquidation levels are put in with
  no format. A field with format \<^verbatim>\<open>.nf\<close> (\<open>n > 0\<close>) has exactly \<open>n\<close> characters after
  its point.
\<close>

theorem report_precisions:
  "(report_of pf env = Inr r \<longrightarrow>
      map (\<lambda>(l, c). (l, precision c)) r =
         [(''timestamp'', None), (''current_price'', None), (''current_ema20'', Some 3),
          (''current_macd'', Some 3), (''current_rsi7'', Some 3), (''oi_latest'', Some 2),
          (''oi_average'', Some 2), (''funding_rate'', Some 8), (''mid_prices'', None),
          (''ema20_list'', None), (''macd_list'', None), (''rsi7_list'', None),
          (''rsi14_list'', None), (''ema20_4h'', Some 3), (''ema50_4h'', Some 3),
          (''atr3_4h'', Some 3), (''atr14_4h'', Some 3), (''current_volume'', Some 3),
          (''average_volume'', Some 3), (''macd_list_4h'', None), (''rsi14_list_4h'', None),
          (''bid_vol'', Some 1), (''ask_vol'', Some 1), (''imbalance'', Some 3),
          (''taker_buy_volume'', Some 1), (''taker_buy_share'', Some 1), (''long_liq'', None),
          (''short_liq'', None), (''vol_regime'', None), (''atr_1h'', Some 1)])
   \<and> (0 < n \<longrightarrow> decimals (render_fixed n x) = n)"
  using report_precision_list [of pf _ _ _ _ _ r] decimals_render_fixed [of n x]
  by (simp add: report_of_def)

theorem report_precisions_witness:
  "\<exists>r. report_of (\<lambda>s. None) skewed_env = Inr r
     \<and> map_of (map (\<lambda>(l, c). (l, precision c)) r) ''imbalance'' = Some (Some 3)
     \<and> map_of (map (\<lambda>(l, c). (l, precision c)) r) ''current_price'' = Some None
     \<and> decimals (render_fixed 3 (3333 / 10000)) = 3"
proof -
  from skewed_report obtain r where r: "report_of (\<lambda>s. None) skewed_env = Inr r" by blast
  from report_precisions [of "\<lambda>s. None" skewed_env r 3 "3333 / 10000"] r
  show ?thesis by simp
qed

text \<open>
  With a book of bid volume 2 and ask volume 1 the imbalance 0.3333 is rendered as
  0.333, with three decimals and not four; the current price has no fixed precision,
  the current volume has three decimals and not one, and the liquidation levels are
  put in with no format.
\<close>

theorem imbalance_three_decimals_counterexample:
  "report_field ''imbalance'' (report_of (\<lambda>s. None) skewed_env) = Some (Fixed 3 (3333 / 10000))
   \<and> render_fixed 3 (3333 / 10000) = ''0.333''
   \<and> report_field ''current_price'' (report_of (\<lambda>s. None) skewed_env) = Some (Plain 100)
   \<and> report_field ''current_volume'' (report_of (\<lambda>s. None) skewed_env) = Some (Fixed 3 2)
   \<and> report_field ''long_liq'' (report_of (\<lambda>s. None) skewed_env) = Some (PlainJson [JInt 0, JInt 0])"
proof -
  have "render_fixed 3 (3333 / 10000) = ''0.333''" by code_simp
  with skewed_fields show ?thesis by simp
qed

section \<open>End-to-end scenario\<close>

text \<open>
  C1 (as the code has it). With the prices 100 to 109, volumes all 1.0 and taker-buy
  volumes all 0.5 the run produces a report with current price 109, ATR 0, RSI7 50 and
  the regime "low": the ratio is 0, below 0.002. Every report on fewer than 15 prices
  (fewer than 14 differences) has ATR 0 and the regime "low". When the candle endpoint
  answers with an empty list the adapter returns the whole fallback bag, and the report
  has current price 60000, ATR 0, RSI7 0 and the regime "low".
\<close>

theorem end_to_end_scenario:
  "(mid_prices (get_binance_data pf (klines_reply env) (depth_reply env)) = [100, 101, 102, 103, 104, 105, 106, 107, 108, 109]
      \<and> volumes (get_binance_data pf (klines_reply env) (depth_reply env)) = replicate 10 1
      \<and> taker_buy_volumes (get_binance_data pf (klines_reply env) (depth_reply env)) = replicate 10 (1 / 2)
     \<longrightarrow> (\<exists>r. report_of pf env = Inr r
           \<and> map_of r ''current_price'' = Some (Plain 109)
           \<and> map_of r ''current_rsi7'' = Some (Fixed 3 50)
           \<and> map_of r ''atr14_4h'' = Some (Fixed 3 0) \<and> map_of r ''atr_1h'' = Some (Fixed 1 0)
           \<and> map_of r ''vol_regime'' = Some (Label ''low'')))
   \<and> (length (mid_prices (get_binance_data pf (klines_reply short_env) (depth_reply short_env))) < 15
      \<and> report_of pf short_env = Inr short_report
     \<longrightarrow> map_of short_report ''atr14_4h'' = Some (Fixed 3 0)
         \<and> map_of short_report ''atr_1h'' = Some (Fixed 1 0)
         \<and> map_of short_report ''vol_regime'' = Some (Label ''low''))
   \<and> (klines_reply failed_env = Reply st (Some (JArr []))
     \<longrightarrow> get_binance_data pf (klines_reply failed_env) (depth_reply failed_env) = binance_fallback
         \<and> (\<exists>r. report_of pf failed_env = Inr r
           \<and> map_of r ''current_price'' = Some (Plain 60000)
           \<and> map_of r ''current_rsi7'' = Some (Fixed 3 0)
           \<and> map_of r ''atr14_4h'' = Some (Fixed 3 0) \<and> map_of r ''atr_1h'' = Some (Fixed 1 0)
           \<and> map_of r ''vol_regime'' = Some (Label ''low'')))"
proof (intro conjI impI)
  assume "mid_prices (get_binance_data pf (klines_reply env) (depth_reply env)) = [100, 101, 102, 103, 104, 105, 106, 107, 108, 109]
      \<and> volumes (get_binance_data pf (klines_reply env) (depth_reply env)) = replicate 10 1
      \<and> taker_buy_volumes (get_binance_data pf (klines_reply env) (depth_reply env)) = replicate 10 (1 / 2)"
  then show "\<exists>r. report_of pf env = Inr r
           \<and> map_of r ''current_price'' = Some (Plain 109)
           \<and> map_of r ''current_rsi7'' = Some (Fixed 3 50)
           \<and> map_of r ''atr14_4h'' = Some (Fixed 3 0) \<and> map_of r ''atr_1h'' = Some (Fixed 1 0)
           \<and> map_of r ''vol_regime'' = Some (Label ''low'')"
    unfolding report_of_def by (intro scenario_report) simp_all
next
  assume a: "length (mid_prices (get_binance_data pf (klines_reply short_env) (depth_reply short_env))) < 15
      \<and> report_of pf short_env = Inr short_report"
  then have l: "length (mid_prices (get_binance_data pf (klines_reply short_env) (depth_reply short_env))) < 15"
    and r: "build_report pf (get_binance_data pf (klines_reply short_env) (depth_reply short_env))
       (get_bybit_data pf (oi_reply short_env) (funding_reply short_env))
       (get_coinglass_liquidations (api_key short_env) (liquidation_reply short_env))
       (klines_4h_reply short_env) (timestamp short_env) = Inr short_report"
    by (simp_all add: report_of_def)
  from short_series_report [OF l r]
  show "map_of short_report ''atr14_4h'' = Some (Fixed 3 0)"
    "map_of short_report ''atr_1h'' = Some (Fixed 1 0)"
    "map_of short_report ''vol_regime'' = Some (Label ''low'')"
    by simp_all
next
  assume k: "klines_reply failed_env = Reply st (Some (JArr []))"
  show "get_binance_data pf (klines_reply failed_env) (depth_reply failed_env) = binance_fallback"
    unfolding k by (rule empty_klines_fallback)
  from empty_klines_report [OF k]
  show "\<exists>r. report_of pf failed_env = Inr r
           \<and> map_of r ''current_price'' = Some (Plain 60000)
           \<and> map_of r ''current_rsi7'' = Some (Fixed 3 0)
           \<and> map_of r ''atr14_4h'' = Some (Fixed 3 0) \<and> map_of r ''atr_1h'' = Some (Fixed 1 0)
           \<and> map_of r ''vol_regime'' = Some (Label ''low'')" .
qed

theorem end_to_end_scenario_witness:
  "(\<exists>r. report_of (\<lambda>s. None) scenario_env = Inr r
       \<and> map_of r ''current_price'' = Some (Plain 109)
       \<and> map_of r ''current_rsi7'' = Some (Fixed 3 50)
       \<and> map_of r ''atr14_4h'' = Some (Fixed 3 0)
       \<and> map_of r ''vol_regime'' = Some (Label ''low''))
   \<and> (\<exists>r. report_of (\<lambda>s. None) skewed_env = Inr r
       \<and> map_of r ''atr14_4h'' = Some (Fixed 3 0)
       \<and> map_of r ''vol_regime'' = Some (Label ''low''))
   \<and> (\<exists>r. report_of (\<lambda>s. None) empty_klines_env = Inr r
       \<and> map_of r ''current_price'' = Some (Plain 60000)
       \<and> map_of r ''current_rsi7'' = Some (Fixed 3 0)
       \<and> map_of r ''vol_regime'' = Some (Label ''low''))"
proof -
  from skewed_report obtain r' where r': "report_of (\<lambda>s. None) skewed_env = Inr r'" by blast
  note t = end_to_end_scenario [where pf = "\<lambda>s. None" and env = scenario_env
      and short_env = skewed_env and short_report = r' and failed_env = empty_klines_env
      and st = 200]
  have s: "get_binance_data (\<lambda>s. None) (klines_reply scenario_env) (depth_reply scenario_env) =
     \<lparr> mid_prices = [100, 101, 102, 103, 104, 105, 106, 107, 108, 109],
       volumes = replicate 10 1, taker_buy_volumes = replicate 10 (1 / 2),
       order_book_imbalance = 0, bid_vol_top5 = 1, ask_vol_top5 = 1 \<rparr>"
    by (simp add: scenario_env_def offline_env_def scenario_fetch)
  have l: "length (mid_prices
      (get_binance_data (\<lambda>s. None) (klines_reply skewed_env) (depth_reply skewed_env))) < 15"
    by (simp add: skewed_env_def offline_env_def skewed_fetch)
  have k: "klines_reply empty_klines_env = Reply 200 (Some (JArr []))"
    by (simp add: empty_klines_env_def offline_env_def)
  from t have 1: "\<exists>r. report_of (\<lambda>s. None) scenario_env = Inr r
       \<and> map_of r ''current_price'' = Some (Plain 109)
       \<and> map_of r ''current_rsi7'' = Some (Fixed 3 50)
       \<and> map_of r ''atr14_4h'' = Some (Fixed 3 0)
       \<and> map_of r ''vol_regime'' = Some (Label ''low'')"
    unfolding s by auto
  from t l r' have 2: "\<exists>r. report_of (\<lambda>s. None) skewed_env = Inr r
       \<and> map_of r ''atr14_4h'' = Some (Fixed 3 0)
       \<and> map_of r ''vol_regime'' = Some (Label ''low'')"
    by auto
  from t k have 3: "\<exists>r. report_of (\<lambda>s. None) empty_klines_env = Inr r
       \<and> map_of r ''current_price'' = Some (Plain 60000)
       \<and> map_of r ''current_rsi7'' = Some (Fixed 3 0)
       \<and> map_of r ''vol_regime'' = Some (Label ''low'')"
    by auto
  from 1 2 3 show ?thesis by blast
qed

text \<open>
  The scenario renders the regime "low", not "normal"; on the fallback series RSI7 is
  0 and the current price is 60000.
\<close>

theorem regime_low_counterexample:
  "report_field ''vol_regime'' (report_of (\<lambda>s. None) scenario_env) = Some (Label ''low'')
   \<and> report_field ''current_rsi7'' (report_of (\<lambda>s. None) empty_klines_env) = Some (Fixed 3 0)
   \<and> report_field ''current_price'' (report_of (\<lambda>s. None) empty_klines_env) = Some (Plain 60000)"
proof -
  have "\<exists>r. report_of (\<lambda>s. None) scenario_env = Inr r
       \<and> map_of r ''current_price'' = Some (Plain 109)
       \<and> map_of r ''current_rsi7'' = Some (Fixed 3 50)
       \<and> map_of r ''atr14_4h'' = Some (Fixed 3 0) \<and> map_of r ''atr_1h'' = Some (Fixed 1 0)
       \<and> map_of r ''vol_regime'' = Some (Label ''low'')"
    unfolding report_of_def
    by (rule scenario_report) (simp_all add: scenario_env_def offline_env_def scenario_fetch)
  then have 1: "report_field ''vol_regime'' (report_of (\<lambda>s. None) scenario_env) = Some (Label ''low'')"
    by (auto simp: report_field_def)
  have k: "klines_reply empty_klines_env = Reply 200 (Some (JArr []))"
    by (simp add: empty_klines_env_def offline_env_def)
  from empty_klines_report [OF k, of "\<lambda>s. None"]
  have 2: "report_field ''current_rsi7'' (report_of (\<lambda>s. None) empty_klines_env) = Some (Fixed 3 0)
   \<and> report_field ''current_price'' (report_of (\<lambda>s. None) empty_klines_env) = Some (Plain 60000)"
    by (auto simp: report_field_def)
  from 1 2 show ?thesis by simp
qed

end
